theory Spec2Isabelle
  imports Complex_Main
begin

section \<open>Numbers\<close>

text \<open>
  The solver of \<^verbatim>\<open>Blob.ts\<close> and \<^verbatim>\<open>Limb.ts\<close> computes on JavaScript numbers.
  They are modelled as real numbers with exact arithmetic: \<^verbatim>\<open>Math.PI\<close> is \<open>pi\<close>,
  \<^verbatim>\<open>Math.sqrt\<close>, \<^verbatim>\<open>Math.cos\<close> and \<^verbatim>\<open>Math.sin\<close> are the real functions. Rounding,
  overflow and signed zeros are outside this part of the model (the binary64 rounding
  of the constructor's arithmetic is modelled separately below). A division of finite
  operands is the only operation of the solver that yields \<^verbatim>\<open>Infinity\<close> or \<^verbatim>\<open>NaN\<close> in
  exact arithmetic; where the divisor is not guarded by the source, the quotient is a
  \<open>number\<close>, whose value \<open>None\<close> stands for a non-finite result.
\<close>

type_synonym number = "real option"

definition js_div :: "real \<Rightarrow> real \<Rightarrow> number" where
  "js_div a b = (if b = 0 then None else Some (a / b))"

text \<open>\<^verbatim>\<open>Math.atan2(y, x)\<close>, by quadrant.\<close>

definition atan2 :: "real \<Rightarrow> real \<Rightarrow> real" where
  "atan2 b a =
     (if 0 < a then arctan (b / a)
      else if a < 0 then (if 0 \<le> b then arctan (b / a) + pi else arctan (b / a) - pi)
      else if 0 < b then pi / 2
      else if b < 0 then - (pi / 2)
      else 0)"

section \<open>The vector library\<close>

text \<open>
  Modelled from the spec: the vector utility, that is \<^verbatim>\<open>Phaser.Math.Vector2\<close>,
  \<^verbatim>\<open>Phaser.Math.Clamp\<close> and \<^verbatim>\<open>Phaser.Math.Distance.Between\<close>, which \<^verbatim>\<open>Blob.ts\<close> and
  \<^verbatim>\<open>Limb.ts\<close> import from the Phaser library and which is not among the sources. The
  specification lists its operations (add, subtract, scale, length, angle, rotate,
  normalize, setLength), clamps coordinates into the world rectangle, and asks that a
  direction required of a vector of length zero give a zero displacement and no
  non-finite value. Each definition below follows the body of the library's function
  (release 3), which agrees with the specification. The methods mutate the receiver and
  return it; the solver always calls them on a fresh \<^verbatim>\<open>clone()\<close>, so each is a function
  from vectors to vectors here.
\<close>

datatype vector2 = Vec (vx: real) (vy: real)

text \<open>Modelled from the spec: \<^verbatim>\<open>add(src)\<close>, on each coordinate.\<close>

definition Vector2_add :: "vector2 \<Rightarrow> vector2 \<Rightarrow> vector2" where
  "Vector2_add v src = Vec (vx v + vx src) (vy v + vy src)"

text \<open>Modelled from the spec: \<^verbatim>\<open>subtract(src)\<close>, on each coordinate.\<close>

definition Vector2_subtract :: "vector2 \<Rightarrow> vector2 \<Rightarrow> vector2" where
  "Vector2_subtract v src = Vec (vx v - vx src) (vy v - vy src)"

text \<open>
  Modelled from the spec: \<^verbatim>\<open>scale(value)\<close>. The library multiplies both coordinates by
  \<^verbatim>\<open>value\<close> if \<^verbatim>\<open>isFinite(value)\<close> and sets both to 0 otherwise.
\<close>

definition Vector2_scale :: "vector2 \<Rightarrow> number \<Rightarrow> vector2" where
  "Vector2_scale v val =
     (case val of Some k \<Rightarrow> Vec (vx v * k) (vy v * k) | None \<Rightarrow> Vec 0 0)"

text \<open>Modelled from the spec: \<^verbatim>\<open>length()\<close>, which is \<^verbatim>\<open>Math.sqrt(x * x + y * y)\<close>.\<close>

definition Vector2_length :: "vector2 \<Rightarrow> real" where
  "Vector2_length v = sqrt (vx v * vx v + vy v * vy v)"

text \<open>
  Modelled from the spec: \<^verbatim>\<open>normalize()\<close>. The library computes
  \<^verbatim>\<open>len = x * x + y * y\<close> and, only if \<^verbatim>\<open>len > 0\<close>, multiplies both coordinates by
  \<^verbatim>\<open>1 / Math.sqrt(len)\<close>: a vector of squared length 0 is left as it is.
\<close>

definition Vector2_normalize :: "vector2 \<Rightarrow> vector2" where
  "Vector2_normalize v =
     (let len = vx v * vx v + vy v * vy v
      in if 0 < len then Vec (vx v * (1 / sqrt len)) (vy v * (1 / sqrt len)) else v)"

text \<open>Modelled from the spec: \<^verbatim>\<open>setLength(length)\<close>, which is \<^verbatim>\<open>normalize().scale(length)\<close>.\<close>

definition Vector2_setLength :: "vector2 \<Rightarrow> number \<Rightarrow> vector2" where
  "Vector2_setLength v len = Vector2_scale (Vector2_normalize v) len"

text \<open>
  Modelled from the spec: \<^verbatim>\<open>rotate(delta)\<close>, which sets the vector to
  \<^verbatim>\<open>(cos * x - sin * y, sin * x + cos * y)\<close> for the cosine and sine of \<^verbatim>\<open>delta\<close>.
\<close>

definition Vector2_rotate :: "vector2 \<Rightarrow> real \<Rightarrow> vector2" where
  "Vector2_rotate v delta =
     Vec (cos delta * vx v - sin delta * vy v) (sin delta * vx v + cos delta * vy v)"

text \<open>
  Modelled from the spec: \<^verbatim>\<open>angle()\<close>, which is \<^verbatim>\<open>Math.atan2(y, x)\<close>, plus
  \<^verbatim>\<open>2 * Math.PI\<close> when that is negative.
\<close>

definition Vector2_angle :: "vector2 \<Rightarrow> real" where
  "Vector2_angle v =
     (let a = atan2 (vy v) (vx v) in if a < 0 then a + 2 * pi else a)"

text \<open>
  Modelled from the spec: \<^verbatim>\<open>Clamp(value, min, max)\<close>, which is
  \<^verbatim>\<open>Math.max(min, Math.min(max, value))\<close>.
\<close>

definition Clamp :: "real \<Rightarrow> real \<Rightarrow> real \<Rightarrow> real" where
  "Clamp v lo hi = max lo (min hi v)"

text \<open>
  Modelled from the spec: \<^verbatim>\<open>Distance.Between(x1, y1, x2, y2)\<close>, which is
  \<^verbatim>\<open>Math.sqrt(dx * dx + dy * dy)\<close> for the differences of the coordinates.
\<close>

definition Distance_Between :: "real \<Rightarrow> real \<Rightarrow> real \<Rightarrow> real \<Rightarrow> real" where
  "Distance_Between x1 y1 x2 y2 =
     (let dx = x1 - x2; dy = y1 - y2 in sqrt (dx * dx + dy * dy))"

section \<open>Angle utilities of Limb.ts\<close>

text \<open>
  \<^verbatim>\<open>simplifyAngle\<close> is two loops in sequence: subtract \<open>2\<pi>\<close> while the angle is at
  least \<open>2\<pi>\<close>, then add \<open>2\<pi>\<close> while it is negative. Each loop is a recursive function
  with its termination proof.
\<close>

function simplifyAngle_down :: "real \<Rightarrow> real" where
  "simplifyAngle_down a = (if 2 * pi \<le> a then simplifyAngle_down (a - 2 * pi) else a)"
  by pat_completeness auto
termination
proof (relation "measure (\<lambda>a. nat \<lfloor>a / (2 * pi)\<rfloor>)")
  show "wf (measure (\<lambda>a. nat \<lfloor>a / (2 * pi)\<rfloor>))" by simp
next
  fix a :: real
  assume h: "2 * pi \<le> a"
  have e: "(a - 2 * pi) / (2 * pi) = a / (2 * pi) - 1"
    by (simp add: field_simps)
  have "1 \<le> a / (2 * pi)" using h pi_gt_zero by (simp add: field_simps)
  then have "1 \<le> \<lfloor>a / (2 * pi)\<rfloor>" by linarith
  then show "(a - 2 * pi, a) \<in> measure (\<lambda>a. nat \<lfloor>a / (2 * pi)\<rfloor>)"
    unfolding in_measure e by simp
qed

function simplifyAngle_up :: "real \<Rightarrow> real" where
  "simplifyAngle_up a = (if a < 0 then simplifyAngle_up (a + 2 * pi) else a)"
  by pat_completeness auto
termination
proof (relation "measure (\<lambda>a. nat \<lceil>- a / (2 * pi)\<rceil>)")
  show "wf (measure (\<lambda>a. nat \<lceil>- a / (2 * pi)\<rceil>))" by simp
next
  fix a :: real
  assume h: "a < 0"
  have e: "- (a + 2 * pi) / (2 * pi) = - a / (2 * pi) - 1"
    by (simp add: field_simps)
  have "0 < - a / (2 * pi)" using h pi_gt_zero by (simp add: field_simps)
  then have "1 \<le> \<lceil>- a / (2 * pi)\<rceil>" by linarith
  then show "(a + 2 * pi, a) \<in> measure (\<lambda>a. nat \<lceil>- a / (2 * pi)\<rceil>)"
    unfolding in_measure e by simp
qed

declare simplifyAngle_down.simps [simp del] simplifyAngle_up.simps [simp del]

definition simplifyAngle :: "real \<Rightarrow> real" where
  "simplifyAngle a = simplifyAngle_up (simplifyAngle_down a)"

definition relativeAngleDiff :: "real \<Rightarrow> real \<Rightarrow> real" where
  "relativeAngleDiff a anchor = pi - simplifyAngle (a + pi - anchor)"

definition constrainAngle :: "real \<Rightarrow> real \<Rightarrow> real \<Rightarrow> real" where
  "constrainAngle a anchor constraint =
     (if \<bar>relativeAngleDiff a anchor\<bar> \<le> constraint then simplifyAngle a
      else if relativeAngleDiff a anchor > constraint then simplifyAngle (anchor - constraint)
      else simplifyAngle (anchor + constraint))"

section \<open>Verlet points\<close>

text \<open>
  \<^verbatim>\<open>BlobPoint\<close> and \<^verbatim>\<open>LimbPoint\<close> both hold \<^verbatim>\<open>pos\<close> and \<^verbatim>\<open>ppos\<close> and define
  \<^verbatim>\<open>verletIntegrate\<close>, \<^verbatim>\<open>applyGravity\<close> and \<^verbatim>\<open>keepInBounds\<close> with the same bodies;
  the two records extend one record of the shared fields and the three methods are
  defined once, for both.
\<close>

record VerletPoint =
  pos :: vector2
  ppos :: vector2

definition verletIntegrate :: "real \<Rightarrow> 'a VerletPoint_scheme \<Rightarrow> 'a VerletPoint_scheme" where
  "verletIntegrate damping p =
     (let temp = pos p;
          vel = Vector2_scale (Vector2_subtract (pos p) (ppos p)) (Some damping)
      in p\<lparr>pos := Vector2_add (pos p) vel, ppos := temp\<rparr>)"

definition applyGravity :: "real \<Rightarrow> 'a VerletPoint_scheme \<Rightarrow> 'a VerletPoint_scheme" where
  "applyGravity g p = p\<lparr>pos := Vec (vx (pos p)) (vy (pos p) + g)\<rparr>"

definition keepInBounds :: "real \<Rightarrow> real \<Rightarrow> 'a VerletPoint_scheme \<Rightarrow> 'a VerletPoint_scheme" where
  "keepInBounds width height p =
     p\<lparr>pos := Vec (Clamp (vx (pos p)) 0 width) (Clamp (vy (pos p)) 0 height)\<rparr>"

section \<open>Limb.ts: the two-joint limb\<close>

record LimbPoint = VerletPoint +
  angle :: real

definition new_LimbPoint :: "vector2 \<Rightarrow> LimbPoint" where
  "new_LimbPoint p = \<lparr>pos = p, ppos = p, angle = 0\<rparr>"

definition applyConstraint ::
  "vector2 \<Rightarrow> real \<Rightarrow> real \<Rightarrow> real \<Rightarrow> real \<Rightarrow> LimbPoint \<Rightarrow> LimbPoint" where
  "applyConstraint anchor normal d angleRange angleOffset p =
     (let anchorAngle = normal + angleOffset;
          curAngle = Vector2_angle (Vector2_subtract anchor (pos p));
          ang = constrainAngle curAngle anchorAngle angleRange;
          dir = Vector2_setLength (Vec (cos ang) (sin ang)) (Some d)
      in p\<lparr>angle := ang, pos := Vector2_subtract anchor dir\<rparr>)"

record Limb =
  elbow :: LimbPoint
  foot :: LimbPoint
  distance :: real
  elbowRange :: real
  elbowOffset :: real
  footRange :: real
  footOffset :: real

text \<open>
  Neither constructor of the two classes has a \<^verbatim>\<open>throw\<close> or any test of its
  arguments. The outcome type names the rejection that the specification asks for, so
  that the claim about it can be stated; the constructors below never return it.
\<close>

datatype 'a construction = Rejected | Constructed 'a

definition Limb_constructor ::
  "vector2 \<Rightarrow> real \<Rightarrow> real \<Rightarrow> real \<Rightarrow> real \<Rightarrow> real \<Rightarrow> Limb construction" where
  "Limb_constructor origin d eRange eOffset fRange fOffset =
     (let elbowPos = Vector2_add origin (Vec 0 d)
      in Constructed
           \<lparr>elbow = new_LimbPoint elbowPos,
            foot = new_LimbPoint (Vector2_add elbowPos (Vec 0 d)),
            distance = d, elbowRange = eRange, elbowOffset = eOffset,
            footRange = fRange, footOffset = fOffset\<rparr>)"

text \<open>
  \<^verbatim>\<open>resolve(scene, anchor, normal)\<close> reads the world's width and height from the
  scene; they are arguments here.
\<close>

definition Limb_resolve :: "real \<Rightarrow> real \<Rightarrow> vector2 \<Rightarrow> real \<Rightarrow> Limb \<Rightarrow> Limb" where
  "Limb_resolve width height anchor normal l =
     (let e1 = applyGravity 1 (verletIntegrate 0.95 (elbow l));
          e2 = applyConstraint anchor normal (distance l) (elbowRange l) (elbowOffset l) e1;
          e3 = keepInBounds width height e2;
          f1 = applyGravity 1 (verletIntegrate 0.95 (foot l));
          f2 = applyConstraint (pos e3) (angle e3) (distance l) (footRange l) (footOffset l) f1;
          f3 = keepInBounds width height f2
      in l\<lparr>elbow := e3, foot := f3\<rparr>)"

section \<open>Blob.ts: the ring of boundary points\<close>

record BlobPoint = VerletPoint +
  displacement :: vector2
  displacementWeight :: nat

definition new_BlobPoint :: "vector2 \<Rightarrow> BlobPoint" where
  "new_BlobPoint p = \<lparr>pos = p, ppos = p, displacement = Vec 0 0, displacementWeight = 0\<rparr>"

definition accumulateDisplacement :: "vector2 \<Rightarrow> BlobPoint \<Rightarrow> BlobPoint" where
  "accumulateDisplacement offset p =
     p\<lparr>displacement := Vector2_add (displacement p) offset,
       displacementWeight := displacementWeight p + 1\<rparr>"

definition applyDisplacement :: "BlobPoint \<Rightarrow> BlobPoint" where
  "applyDisplacement p =
     (if displacementWeight p > 0
      then (let d = Vector2_scale (displacement p) (js_div 1 (real (displacementWeight p)))
            in p\<lparr>pos := Vector2_add (pos p) d, displacement := Vec 0 0,
                 displacementWeight := 0\<rparr>)
      else p)"

definition collideWithPointer :: "vector2 option \<Rightarrow> BlobPoint \<Rightarrow> BlobPoint" where
  "collideWithPointer pointerWorld p =
     (case pointerWorld of
        None \<Rightarrow> p
      | Some q \<Rightarrow>
          (let dst = Distance_Between (vx (pos p)) (vy (pos p)) (vx q) (vy q);
               radius = 100
           in if dst < radius
              then p\<lparr>pos := Vector2_add q
                              (Vector2_setLength (Vector2_subtract (pos p) q) (Some radius))\<rparr>
              else p))"

text \<open>
  The rendering fields of \<^verbatim>\<open>Blob\<close> and its scene are left out. The ring is the list
  \<open>points\<close>; the number of points is an integer count.
\<close>

record Blob =
  points :: "BlobPoint list"
  radius :: real
  area :: real
  circumference :: real
  chordLength :: real

text \<open>
  The layout loop runs for \<open>i = 0, \<dots>, numPoints - 1\<close>, so its division by
  \<open>numPoints\<close> has a positive divisor. For \<open>numPoints = 0\<close> JavaScript stores a
  non-finite \<^verbatim>\<open>chordLength\<close>, which is never read because the ring is empty; the
  record holds \<open>0\<close> there.
\<close>

definition layoutPoint :: "vector2 \<Rightarrow> int \<Rightarrow> real \<Rightarrow> nat \<Rightarrow> BlobPoint" where
  "layoutPoint origin numPoints r i =
     (let ang = (pi * 2 * real i) / real_of_int numPoints - pi / 2;
          offset = Vec (cos ang * r) (sin ang * r)
      in new_BlobPoint (Vector2_add origin offset))"

definition Blob_constructor :: "vector2 \<Rightarrow> int \<Rightarrow> real \<Rightarrow> real \<Rightarrow> Blob construction" where
  "Blob_constructor origin numPoints r puffiness =
     (let a = r * r * pi * puffiness;
          c = r * pi * 2;
          chord = (case js_div c (real_of_int numPoints) of Some q \<Rightarrow> q | None \<Rightarrow> 0)
      in Constructed
           \<lparr>points = map (layoutPoint origin numPoints r) [0..<nat numPoints],
            radius = r, area = a, circumference = c, chordLength = chord\<rparr>)"

definition getArea :: "BlobPoint list \<Rightarrow> real" where
  "getArea ps =
     fold (\<lambda>i a.
             (let cur = pos (ps ! i); nxt = pos (ps ! ((i + 1) mod length ps))
              in a + ((vx cur - vx nxt) * (vy cur + vy nxt)) / 2))
          [0..<length ps] 0"

text \<open>
  The body of the distance loop for the pair \<open>(i, i + 1 mod N)\<close>. Both indices are
  below the length of the ring. The two accumulations are done in the order of the
  source and each reads the current list, so that the case of a ring of one point,
  where \<^verbatim>\<open>cur\<close> and \<^verbatim>\<open>next\<close> are the same object, is covered.
\<close>

definition distanceConstraint :: "real \<Rightarrow> nat \<Rightarrow> BlobPoint list \<Rightarrow> BlobPoint list" where
  "distanceConstraint chord i ps =
     (let j = (i + 1) mod length ps;
          diff = Vector2_subtract (pos (ps ! j)) (pos (ps ! i));
          mag = Vector2_length diff
      in if mag > chord
         then (let error = (mag - chord) / 2;
                   offset = Vector2_setLength diff (Some error);
                   negOffset = Vector2_scale offset (Some (- 1));
                   ps1 = ps[i := accumulateDisplacement offset (ps ! i)]
               in ps1[j := accumulateDisplacement negOffset (ps1 ! j)])
         else ps)"

text \<open>
  The body of the dilation loop for the point \<open>i\<close>. The index of the previous point,
  \<^verbatim>\<open>(i - 1 + N) % N\<close>, is written \<open>(i + N - 1) mod N\<close> on natural numbers, whose
  subtraction truncates.
\<close>

definition dilationNormal :: "number \<Rightarrow> vector2 \<Rightarrow> vector2 \<Rightarrow> vector2" where
  "dilationNormal offset prevPos nextPos =
     (let secant = Vector2_subtract nextPos prevPos
      in Vector2_setLength (Vector2_rotate secant (- pi / 2)) offset)"

definition dilation :: "number \<Rightarrow> nat \<Rightarrow> BlobPoint list \<Rightarrow> BlobPoint list" where
  "dilation offset i ps =
     (let prev = ps ! ((i + length ps - 1) mod length ps);
          nxt = ps ! ((i + 1) mod length ps)
      in ps[i := accumulateDisplacement (dilationNormal offset (pos prev) (pos nxt)) (ps ! i)])"

definition collisions :: "real \<Rightarrow> real \<Rightarrow> vector2 option \<Rightarrow> BlobPoint \<Rightarrow> BlobPoint" where
  "collisions width height pointerWorld p =
     (let p1 = keepInBounds width height p
      in case pointerWorld of None \<Rightarrow> p1 | Some q \<Rightarrow> collideWithPointer (Some q) p1)"

text \<open>
  One pass of the relaxation loop of \<^verbatim>\<open>update\<close>: the distance loop, the dilation
  loop and the application of the accumulated displacements (\<open>displace\<close>), then the
  collision loop.
\<close>

definition displace :: "Blob \<Rightarrow> BlobPoint list \<Rightarrow> BlobPoint list" where
  "displace b ps =
     (let ps1 = fold (distanceConstraint (chordLength b)) [0..<length ps] ps;
          error = area b - getArea ps1;
          offset = js_div error (circumference b);
          ps2 = fold (dilation offset) [0..<length ps1] ps1
      in map applyDisplacement ps2)"

definition relax :: "Blob \<Rightarrow> real \<Rightarrow> real \<Rightarrow> vector2 option \<Rightarrow> BlobPoint list \<Rightarrow> BlobPoint list" where
  "relax b width height pointerWorld ps =
     map (collisions width height pointerWorld) (displace b ps)"

text \<open>
  \<^verbatim>\<open>update(iterations)\<close> reads the world's size and the pointer from the scene; they
  are arguments here, the pointer being \<open>None\<close> when it is not down.
\<close>

definition Blob_update :: "real \<Rightarrow> real \<Rightarrow> vector2 option \<Rightarrow> nat \<Rightarrow> Blob \<Rightarrow> Blob" where
  "Blob_update width height pointerWorld iterations b =
     (let ps0 = map (\<lambda>p. applyGravity 1 (verletIntegrate 0.99 p)) (points b)
      in b\<lparr>points := ((relax b width height pointerWorld) ^^ iterations) ps0\<rparr>)"

section \<open>Inputs of the examples\<close>

text \<open>
  A vector lies strictly inside the world rectangle when no coordinate is on its border.
\<close>

definition inside :: "real \<Rightarrow> real \<Rightarrow> vector2 \<Rightarrow> bool" where
  "inside w h v \<longleftrightarrow> 0 < vx v \<and> vx v < w \<and> 0 < vy v \<and> vy v < h"



text \<open>
  The limb of the scenario of the specification (segment length 56, elbow range \<open>\<pi>/4\<close>
  and offset 0, foot range \<open>\<pi>/5\<close> and offset \<open>-\<pi>/4\<close>), as its constructor builds it at
  the origin \<open>(0, 0)\<close>, and the same limb built at \<open>(1000, 1000)\<close>.
\<close>

definition scenarioLimb :: Limb where
  "scenarioLimb =
     \<lparr>elbow = new_LimbPoint (Vec 0 56), foot = new_LimbPoint (Vec 0 112), distance = 56,
      elbowRange = pi / 4, elbowOffset = 0, footRange = pi / 5, footOffset = - (pi / 4)\<rparr>"

definition midLimb :: Limb where
  "midLimb =
     \<lparr>elbow = new_LimbPoint (Vec 1000 1056), foot = new_LimbPoint (Vec 1000 1112), distance = 56,
      elbowRange = pi / 4, elbowOffset = 0, footRange = pi / 5, footOffset = - (pi / 4)\<rparr>"

text \<open>
  The vector from the point \<open>i\<close> of a ring to its successor, and the correction that
  the distance loop computes for a stretched pair: that vector set to half the excess
  of its length over the chord length.
\<close>

definition pairDiff :: "BlobPoint list \<Rightarrow> nat \<Rightarrow> vector2" where
  "pairDiff ps i = Vector2_subtract (pos (ps ! ((i + 1) mod length ps))) (pos (ps ! i))"

definition pairOffset :: "real \<Rightarrow> BlobPoint list \<Rightarrow> nat \<Rightarrow> vector2" where
  "pairOffset chord ps i =
     Vector2_setLength (pairDiff ps i) (Some ((Vector2_length (pairDiff ps i) - chord) / 2))"


definition stretchedBlob :: Blob where
  "stretchedBlob =
     \<lparr>points = [new_BlobPoint (Vec 1000 999), new_BlobPoint (Vec 2000 999),
                new_BlobPoint (Vec 3000 999)],
      radius = 50, area = 50 * 50 * pi * 1, circumference = 50 * pi * 2,
      chordLength = 50 * pi * 2 / 3\<rparr>"

text \<open>
  A ring of four points at rest in the corners of a world of 1000 by 1000, with the rest
  quantities that the constructor computes for radius 450 and puffiness 3: a blob too
  large for its world (rest area \<open>607500\<pi>\<close>, chord length \<open>225\<pi>\<close>).
\<close>

definition cornerBlob :: Blob where
  "cornerBlob =
     \<lparr>points = [new_BlobPoint (Vec 0 0), new_BlobPoint (Vec 1000 0),
                new_BlobPoint (Vec 1000 1000), new_BlobPoint (Vec 0 1000)],
      radius = 450, area = 450 * 450 * pi * 3, circumference = 450 * pi * 2,
      chordLength = 450 * pi * 2 / 4\<rparr>"

text \<open>The point of a ring at \<open>(a, b)\<close>, last at \<open>(c, d)\<close>, with empty accumulators.\<close>

definition ringPoint :: "real \<Rightarrow> real \<Rightarrow> real \<Rightarrow> real \<Rightarrow> BlobPoint" where
  "ringPoint a b c d =
     \<lparr>pos = Vec a b, ppos = Vec c d, displacement = Vec 0 0, displacementWeight = 0\<rparr>"

text \<open>
  The ring of the corner blob after its points have been moved: down by \<open>s\<close> and outwards,
  away from the centre of the world, by \<open>t\<close> in each coordinate.
\<close>

definition cornerRing :: "real \<Rightarrow> real \<Rightarrow> BlobPoint list" where
  "cornerRing s t =
     [ringPoint (- t) (s - t) 0 0, ringPoint (1000 + t) (s - t) 1000 0,
      ringPoint (1000 + t) (1000 + s + t) 1000 1000, ringPoint (- t) (1000 + s + t) 0 1000]"

text \<open>A ring of three points on a horizontal line, neighbours 10 apart.\<close>

definition exampleRing :: "BlobPoint list" where
  "exampleRing = [new_BlobPoint (Vec 0 0), new_BlobPoint (Vec 10 0), new_BlobPoint (Vec 20 0)]"

section \<open>The rest quantities in binary64 arithmetic\<close>

text \<open>
  A JavaScript number is a binary64 value and every arithmetic operation returns the
  value nearest to the exact result, ties going to the even significand. \<open>binary64 x\<close>
  is that value for a real \<open>x\<close>: with \<open>2\<^sup>e \<le> \<bar>x\<bar> < 2\<^sup>e\<^sup>+\<^sup>1\<close> the values around \<open>x\<close> are the
  multiples of \<open>2\<^sup>e\<^sup>-\<^sup>5\<^sup>2\<close>. The exponent is not bounded here, so the function is the
  rounding of JavaScript wherever the result neither overflows nor is subnormal.
  \<^verbatim>\<open>Math.PI\<close> is the binary64 value \<open>884279719003555 / 2\<^sup>4\<^sup>8\<close>.
\<close>

definition round_even :: "real \<Rightarrow> int" where
  "round_even x =
     (let f = \<lfloor>x\<rfloor>; r = x - real_of_int f
      in if r < 1 / 2 then f else if 1 / 2 < r then f + 1 else if even f then f else f + 1)"

definition binary64 :: "real \<Rightarrow> real" where
  "binary64 x =
     (if x = 0 then 0
      else (let e = \<lfloor>log 2 \<bar>x\<bar>\<rfloor>; ulp = 2 powi (e - 52)
            in real_of_int (round_even (x / ulp)) * ulp))"

definition Math_PI :: real where
  "Math_PI = 884279719003555 / 2 ^ 48"

text \<open>
  The two assignments of the constructor, \<^verbatim>\<open>circumference = radius * Math.PI * 2\<close> and
  \<^verbatim>\<open>chordLength = circumference / numPoints\<close>, with every operation rounded. The radius
  is a binary64 value and the number of points an integer.
\<close>

definition circumference64 :: "real \<Rightarrow> real" where
  "circumference64 r = binary64 (binary64 (r * Math_PI) * 2)"

definition chordLength64 :: "real \<Rightarrow> int \<Rightarrow> real" where
  "chordLength64 r numPoints = binary64 (circumference64 r / real_of_int numPoints)"

section \<open>Reduction of angles\<close>

lemma floor_shift_down: "0 < T \<Longrightarrow> \<lfloor>(a - T) / T\<rfloor> = \<lfloor>a / T\<rfloor> - 1" for T a :: real
  by (simp add: diff_divide_distrib)

lemma floor_shift_up: "0 < T \<Longrightarrow> \<lfloor>(a + T) / T\<rfloor> = \<lfloor>a / T\<rfloor> + 1" for T a :: real
  by (simp add: add_divide_distrib)

lemma floor_zero_iff: "0 < T \<Longrightarrow> 0 \<le> a \<Longrightarrow> a < T \<Longrightarrow> \<lfloor>a / T\<rfloor> = 0" for T a :: real
  by (simp add: floor_eq_iff)

lemma reduced_lower: "0 < T \<Longrightarrow> 0 \<le> a - T * real_of_int \<lfloor>a / T\<rfloor>" for T a :: real
proof -
  assume T: "0 < T"
  have "real_of_int \<lfloor>a / T\<rfloor> \<le> a / T" by simp
  then have "real_of_int \<lfloor>a / T\<rfloor> * T \<le> a" using T by (simp only: pos_le_divide_eq)
  then show ?thesis by (simp add: mult.commute)
qed


lemma simplifyAngle_down_eq:
  "0 \<le> a \<Longrightarrow> simplifyAngle_down a = a - 2 * pi * real_of_int \<lfloor>a / (2 * pi)\<rfloor>"
proof (induction a rule: simplifyAngle_down.induct)
  case (1 a)
  show ?case
  proof (cases "2 * pi \<le> a")
    case True
    then have a0: "0 \<le> a - 2 * pi" by simp
    have f: "\<lfloor>(a - 2 * pi) / (2 * pi)\<rfloor> = \<lfloor>a / (2 * pi)\<rfloor> - 1"
      by (rule floor_shift_down) simp
    have "simplifyAngle_down a = simplifyAngle_down (a - 2 * pi)"
      using True by (subst simplifyAngle_down.simps) simp
    also have "\<dots> = a - 2 * pi - 2 * pi * real_of_int \<lfloor>(a - 2 * pi) / (2 * pi)\<rfloor>"
      using "1.IH" [OF True a0] .
    also have "\<dots> = a - 2 * pi * real_of_int \<lfloor>a / (2 * pi)\<rfloor>"
      unfolding f by (simp add: algebra_simps)
    finally show ?thesis .
  next
    case False
    with 1 have "\<lfloor>a / (2 * pi)\<rfloor> = 0" by (intro floor_zero_iff) simp_all
    with False show ?thesis by (subst simplifyAngle_down.simps) simp
  qed
qed

lemma simplifyAngle_down_small: "a < 2 * pi \<Longrightarrow> simplifyAngle_down a = a"
  by (subst simplifyAngle_down.simps) simp

lemma simplifyAngle_up_eq:
  "a < 2 * pi \<Longrightarrow> simplifyAngle_up a = a - 2 * pi * real_of_int \<lfloor>a / (2 * pi)\<rfloor>"
proof (induction a rule: simplifyAngle_up.induct)
  case (1 a)
  show ?case
  proof (cases "a < 0")
    case True
    then have a0: "a + 2 * pi < 2 * pi" by simp
    have f: "\<lfloor>(a + 2 * pi) / (2 * pi)\<rfloor> = \<lfloor>a / (2 * pi)\<rfloor> + 1"
      by (rule floor_shift_up) simp
    have "simplifyAngle_up a = simplifyAngle_up (a + 2 * pi)"
      using True by (subst simplifyAngle_up.simps) simp
    also have "\<dots> = a + 2 * pi - 2 * pi * real_of_int \<lfloor>(a + 2 * pi) / (2 * pi)\<rfloor>"
      using "1.IH" [OF True a0] .
    also have "\<dots> = a - 2 * pi * real_of_int \<lfloor>a / (2 * pi)\<rfloor>"
      unfolding f by (simp add: algebra_simps)
    finally show ?thesis .
  next
    case False
    with 1 have "\<lfloor>a / (2 * pi)\<rfloor> = 0" by (intro floor_zero_iff) simp_all
    with False show ?thesis by (subst simplifyAngle_up.simps) simp
  qed
qed

lemma simplifyAngle_eq: "simplifyAngle a = a - 2 * pi * real_of_int \<lfloor>a / (2 * pi)\<rfloor>"
proof (cases "2 * pi \<le> a")
  case True
  then have a0: "0 \<le> a" using pi_gt_zero by linarith
  let ?r = "a - 2 * pi * real_of_int \<lfloor>a / (2 * pi)\<rfloor>"
  have d: "simplifyAngle_down a = ?r" using a0 by (rule simplifyAngle_down_eq)
  have "0 \<le> ?r" by (rule reduced_lower) simp
  then have "simplifyAngle_up ?r = ?r" by (subst simplifyAngle_up.simps) simp
  with d show ?thesis by (simp only: simplifyAngle_def)
next
  case False
  then have "a < 2 * pi" by simp
  then show ?thesis
    by (simp only: simplifyAngle_def simplifyAngle_down_small simplifyAngle_up_eq)
qed


lemma simplifyAngle_unique:
  assumes "0 \<le> r" "r < 2 * pi" "a = r + 2 * pi * real_of_int k"
  shows "simplifyAngle a = r"
proof -
  have "a / (2 * pi) = r / (2 * pi) + real_of_int k"
    unfolding assms(3) by (simp add: add_divide_distrib)
  then have "\<lfloor>a / (2 * pi)\<rfloor> = \<lfloor>r / (2 * pi)\<rfloor> + k" by simp
  also have "\<lfloor>r / (2 * pi)\<rfloor> = 0" using assms(1,2) by (intro floor_zero_iff) simp_all
  finally have "\<lfloor>a / (2 * pi)\<rfloor> = k" by simp
  then show ?thesis unfolding simplifyAngle_eq assms(3) by simp
qed












lemma applyConstraint_angle:
  "angle (applyConstraint anchor normal d rng off p)
     = constrainAngle (Vector2_angle (Vector2_subtract anchor (pos p))) (normal + off) rng"
  by (simp add: applyConstraint_def Let_def)






section \<open>Limb.resolve\<close>

lemma setLength_unit:
  "Vector2_setLength (Vec (cos t) (sin t)) (Some d) = Vec (cos t * d) (sin t * d)"
  by (simp add: Vector2_setLength_def Vector2_normalize_def Vector2_scale_def)

lemma applyConstraint_pos:
  "pos (applyConstraint anchor normal d rng off p)
     = Vec (vx anchor - cos (angle (applyConstraint anchor normal d rng off p)) * d)
           (vy anchor - sin (angle (applyConstraint anchor normal d rng off p)) * d)"
  by (simp add: applyConstraint_def Let_def setLength_unit Vector2_subtract_def)

lemma unit_length: "sqrt ((c * d) * (c * d) + (s * d) * (s * d)) = \<bar>d\<bar>" if "c * c + s * s = 1" for c s d :: real
proof -
  have "(c * d) * (c * d) + (s * d) * (s * d) = (c * c + s * s) * (d * d)"
    by (simp add: algebra_simps)
  also have "\<dots> = d\<^sup>2" using that by (simp add: power2_eq_square)
  finally show ?thesis by simp
qed

lemma applyConstraint_distance:
  "Vector2_length (Vector2_subtract (pos (applyConstraint anchor normal d rng off p)) anchor) = \<bar>d\<bar>"
proof -
  let ?t = "angle (applyConstraint anchor normal d rng off p)"
  have "Vector2_length (Vector2_subtract (pos (applyConstraint anchor normal d rng off p)) anchor)
      = sqrt ((cos ?t * d) * (cos ?t * d) + (sin ?t * d) * (sin ?t * d))"
    by (subst applyConstraint_pos) (simp add: Vector2_length_def Vector2_subtract_def)
  also have "\<dots> = \<bar>d\<bar>" by (rule unit_length) simp
  finally show ?thesis .
qed

lemma Clamp_inside: "0 < Clamp v 0 w \<Longrightarrow> Clamp v 0 w < w \<Longrightarrow> Clamp v 0 w = v"
  unfolding Clamp_def by linarith

lemma keepInBounds_inside:
  assumes "0 < vx (pos (keepInBounds w h p))" "vx (pos (keepInBounds w h p)) < w"
    "0 < vy (pos (keepInBounds w h p))" "vy (pos (keepInBounds w h p)) < h"
  shows "pos (keepInBounds w h p) = pos p"
proof -
  have "Clamp (vx (pos p)) 0 w = vx (pos p)"
    using assms(1,2) by (intro Clamp_inside) (simp_all add: keepInBounds_def)
  moreover have "Clamp (vy (pos p)) 0 h = vy (pos p)"
    using assms(3,4) by (intro Clamp_inside) (simp_all add: keepInBounds_def)
  ultimately show ?thesis by (simp add: keepInBounds_def)
qed

lemma resolve_elbow:
  "elbow (Limb_resolve w h anchor normal l)
     = keepInBounds w h
         (applyConstraint anchor normal (distance l) (elbowRange l) (elbowOffset l)
            (applyGravity 1 (verletIntegrate 0.95 (elbow l))))"
  by (simp add: Limb_resolve_def Let_def)

lemma resolve_foot:
  "foot (Limb_resolve w h anchor normal l)
     = keepInBounds w h
         (applyConstraint (pos (elbow (Limb_resolve w h anchor normal l)))
            (angle (elbow (Limb_resolve w h anchor normal l)))
            (distance l) (footRange l) (footOffset l)
            (applyGravity 1 (verletIntegrate 0.95 (foot l))))"
  by (simp add: Limb_resolve_def Let_def)

lemma kept_distance:
  assumes "inside w h (pos (keepInBounds w h (applyConstraint anchor normal d rng off p)))"
  shows "Vector2_length
           (Vector2_subtract (pos (keepInBounds w h (applyConstraint anchor normal d rng off p)))
              anchor) = \<bar>d\<bar>"
proof -
  have "pos (keepInBounds w h (applyConstraint anchor normal d rng off p))
          = pos (applyConstraint anchor normal d rng off p)"
    using assms unfolding inside_def by (intro keepInBounds_inside) simp_all
  then show ?thesis by (simp only: applyConstraint_distance)
qed

text \<open>
  Claim C1, as amended. After \<open>Limb.resolve\<close>, a joint whose position lies strictly
  inside the world rectangle is at distance exactly \<open>\<bar>distance\<bar>\<close> from its anchor: the
  elbow from the root anchor, the foot from the elbow's final position. A joint on the
  border of the rectangle may have been moved there by \<open>keepInBounds\<close>, which runs after
  the constraint.
\<close>

theorem resolve_joint_distance:
  "(inside w h (pos (elbow (Limb_resolve w h anchor normal l))) \<longrightarrow>
      Vector2_length (Vector2_subtract (pos (elbow (Limb_resolve w h anchor normal l))) anchor)
        = \<bar>distance l\<bar>)
   \<and> (inside w h (pos (foot (Limb_resolve w h anchor normal l))) \<longrightarrow>
      Vector2_length (Vector2_subtract (pos (foot (Limb_resolve w h anchor normal l)))
                                       (pos (elbow (Limb_resolve w h anchor normal l))))
        = \<bar>distance l\<bar>)"
proof (intro conjI impI)
  assume "inside w h (pos (elbow (Limb_resolve w h anchor normal l)))"
  then show "Vector2_length
       (Vector2_subtract (pos (elbow (Limb_resolve w h anchor normal l))) anchor) = \<bar>distance l\<bar>"
    unfolding resolve_elbow by (rule kept_distance)
next
  assume "inside w h (pos (foot (Limb_resolve w h anchor normal l)))"
  then show "Vector2_length (Vector2_subtract (pos (foot (Limb_resolve w h anchor normal l)))
                                       (pos (elbow (Limb_resolve w h anchor normal l))))
        = \<bar>distance l\<bar>"
    by (subst resolve_foot, subst (asm) resolve_foot) (rule kept_distance)
qed

lemma applyConstraint_near:
  "\<bar>vx (pos (applyConstraint anchor normal d rng off p)) - vx anchor\<bar> \<le> \<bar>d\<bar>"
  "\<bar>vy (pos (applyConstraint anchor normal d rng off p)) - vy anchor\<bar> \<le> \<bar>d\<bar>"
proof -
  let ?t = "angle (applyConstraint anchor normal d rng off p)"
  have "\<bar>cos ?t * d\<bar> \<le> 1 * \<bar>d\<bar>" unfolding abs_mult by (intro mult_right_mono) simp_all
  then show "\<bar>vx (pos (applyConstraint anchor normal d rng off p)) - vx anchor\<bar> \<le> \<bar>d\<bar>"
    by (subst applyConstraint_pos) simp
  have "\<bar>sin ?t * d\<bar> \<le> 1 * \<bar>d\<bar>" unfolding abs_mult by (intro mult_right_mono) simp_all
  then show "\<bar>vy (pos (applyConstraint anchor normal d rng off p)) - vy anchor\<bar> \<le> \<bar>d\<bar>"
    by (subst applyConstraint_pos) simp
qed

lemma kept_inside:
  assumes "\<bar>d\<bar> < vx anchor" "vx anchor + \<bar>d\<bar> < w" "\<bar>d\<bar> < vy anchor" "vy anchor + \<bar>d\<bar> < h"
  shows "inside w h (pos (keepInBounds w h (applyConstraint anchor normal d rng off p)))"
    and "\<bar>vx (pos (keepInBounds w h (applyConstraint anchor normal d rng off p))) - vx anchor\<bar> \<le> \<bar>d\<bar>"
    and "\<bar>vy (pos (keepInBounds w h (applyConstraint anchor normal d rng off p))) - vy anchor\<bar> \<le> \<bar>d\<bar>"
proof -
  let ?q = "applyConstraint anchor normal d rng off p"
  have x: "0 < vx (pos ?q)" "vx (pos ?q) < w"
    using applyConstraint_near(1) [of anchor normal d rng off p] assms(1,2) by linarith+
  have y: "0 < vy (pos ?q)" "vy (pos ?q) < h"
    using applyConstraint_near(2) [of anchor normal d rng off p] assms(3,4) by linarith+
  have c: "Clamp (vx (pos ?q)) 0 w = vx (pos ?q)" "Clamp (vy (pos ?q)) 0 h = vy (pos ?q)"
    using x y unfolding Clamp_def by linarith+
  show "inside w h (pos (keepInBounds w h ?q))"
    using x y by (simp add: inside_def keepInBounds_def c)
  show "\<bar>vx (pos (keepInBounds w h ?q)) - vx anchor\<bar> \<le> \<bar>d\<bar>"
    using applyConstraint_near(1) [of anchor normal d rng off p] by (simp add: keepInBounds_def c)
  show "\<bar>vy (pos (keepInBounds w h ?q)) - vy anchor\<bar> \<le> \<bar>d\<bar>"
    using applyConstraint_near(2) [of anchor normal d rng off p] by (simp add: keepInBounds_def c)
qed

text \<open>
  The limb built at \<open>(1000, 1000)\<close> and resolved against that anchor stays strictly
  inside the world of 2000 by 2000, and both its joints are at distance 56.
\<close>

theorem resolve_joint_distance_witness:
  "Vector2_length
     (Vector2_subtract (pos (elbow (Limb_resolve 2000 2000 (Vec 1000 1000) 0 midLimb)))
        (Vec 1000 1000)) = 56
   \<and> Vector2_length
       (Vector2_subtract (pos (foot (Limb_resolve 2000 2000 (Vec 1000 1000) 0 midLimb)))
          (pos (elbow (Limb_resolve 2000 2000 (Vec 1000 1000) 0 midLimb)))) = 56"
proof -
  let ?l = "Limb_resolve 2000 2000 (Vec 1000 1000) 0 midLimb"
  have d: "distance midLimb = 56" by (simp add: midLimb_def)
  have e: "inside 2000 2000 (pos (elbow ?l))"
    "\<bar>vx (pos (elbow ?l)) - 1000\<bar> \<le> 56" "\<bar>vy (pos (elbow ?l)) - 1000\<bar> \<le> 56"
    unfolding resolve_elbow d
    using kept_inside [of 56 "Vec 1000 1000" 2000 2000] by simp_all
  have f: "inside 2000 2000 (pos (foot ?l))"
    by (subst resolve_foot, unfold d, rule kept_inside(1)) (use e(2,3) in linarith)+
  show ?thesis
    using resolve_joint_distance [of 2000 2000 "Vec 1000 1000" 0 midLimb] e(1) f d by simp
qed

lemma scenario_e1:
  "applyGravity 1 (verletIntegrate 0.95 (elbow scenarioLimb))
     = \<lparr>pos = Vec 0 57, ppos = Vec 0 56, angle = 0\<rparr>"
  by (simp add: scenarioLimb_def new_LimbPoint_def verletIntegrate_def applyGravity_def
        Vector2_add_def Vector2_subtract_def Vector2_scale_def Let_def)

lemma scenario_curAngle: "Vector2_angle (Vector2_subtract (Vec 0 0) (Vec 0 57)) = 3 * pi / 2"
  by (simp add: Vector2_angle_def Vector2_subtract_def atan2_def Let_def)

lemma scenario_rad: "relativeAngleDiff (3 * pi / 2) 0 = pi / 2"
proof -
  have "simplifyAngle (3 * pi / 2 + pi - 0) = pi / 2"
    by (rule simplifyAngle_unique [where k = 1]) simp_all
  then show ?thesis unfolding relativeAngleDiff_def by simp
qed

lemma scenario_angle: "constrainAngle (3 * pi / 2) (0 + 0) (pi / 4) = 7 * pi / 4"
proof -
  have lo: "simplifyAngle (0 - pi / 4) = 7 * pi / 4"
    by (rule simplifyAngle_unique [where k = "- 1"]) simp_all
  have p: "0 < pi" by simp
  have r: "relativeAngleDiff (3 * pi / 2) (0 + 0) = pi / 2"
    using scenario_rad by simp
  have a: "\<not> \<bar>relativeAngleDiff (3 * pi / 2) (0 + 0)\<bar> \<le> pi / 4"
    unfolding r using p by linarith
  have b: "relativeAngleDiff (3 * pi / 2) (0 + 0) > pi / 4"
    unfolding r using p by linarith
  have "constrainAngle (3 * pi / 2) (0 + 0) (pi / 4) = simplifyAngle (0 + 0 - pi / 4)"
    using a b by (simp only: constrainAngle_def if_True if_False)
  then show ?thesis using lo by simp
qed

lemma cos_sin_seven_quarters: "cos (7 * pi / 4) = sqrt 2 / 2" "sin (7 * pi / 4) = - (sqrt 2 / 2)"
proof -
  have e: "7 * pi / 4 = 2 * pi - pi / 4" by simp
  show "cos (7 * pi / 4) = sqrt 2 / 2" unfolding e by (simp only: cos_2pi_minus cos_45)
  show "sin (7 * pi / 4) = - (sqrt 2 / 2)" unfolding e by (simp only: sin_2pi_minus sin_45)
qed

lemma scenario_e2:
  "pos (applyConstraint (Vec 0 0) 0 56 (pi / 4) 0 \<lparr>pos = Vec 0 57, ppos = Vec 0 56, angle = 0\<rparr>)
     = Vec (- (28 * sqrt 2)) (28 * sqrt 2)"
proof -
  have a: "angle (applyConstraint (Vec 0 0) 0 56 (pi / 4) 0 \<lparr>pos = Vec 0 57, ppos = Vec 0 56, angle = 0\<rparr>)
              = 7 * pi / 4"
    unfolding applyConstraint_angle by (simp only: VerletPoint.simps scenario_curAngle scenario_angle)
  show ?thesis
    by (subst applyConstraint_pos) (simp add: a cos_sin_seven_quarters)
qed

lemma scenario_elbow:
  "pos (elbow (Limb_resolve 2000 2000 (Vec 0 0) 0 scenarioLimb)) = Vec 0 (28 * sqrt 2)"
proof -
  have d: "distance scenarioLimb = 56" "elbowRange scenarioLimb = pi / 4"
    "elbowOffset scenarioLimb = 0" by (simp_all add: scenarioLimb_def)
  have s: "0 \<le> sqrt 2" "28 * sqrt 2 \<le> 2000"
  proof -
    show "0 \<le> sqrt 2" by simp
    have "sqrt 2 \<le> 2" by (rule real_le_lsqrt) simp_all
    then show "28 * sqrt 2 \<le> 2000" by linarith
  qed
  have c: "Clamp (- (28 * sqrt 2)) 0 2000 = 0" "Clamp (28 * sqrt 2) 0 2000 = 28 * sqrt 2"
    using s unfolding Clamp_def by linarith+
  show ?thesis
    unfolding resolve_elbow scenario_e1 d
    by (simp add: keepInBounds_def scenario_e2 c)
qed

lemma vertical_length: "Vector2_length (Vector2_subtract (Vec a b) (Vec a c)) = \<bar>b - c\<bar>"
  by (simp add: Vector2_length_def Vector2_subtract_def)

text \<open>
  The scenario limb, resolved against the root anchor \<open>(0, 0)\<close> with normal angle 0 in
  a world of 2000 by 2000: the constraint places the elbow at \<open>(-28\<surd>2, 28\<surd>2)\<close>, the
  clamp moves it to \<open>(0, 28\<surd>2)\<close>, and its distance from the anchor is \<open>28\<surd>2\<close>, more
  than 16 short of the segment length 56.
\<close>

theorem resolve_joint_distance_counterexample:
  "Limb_constructor (Vec 0 0) 56 (pi / 4) 0 (pi / 5) (- (pi / 4)) = Constructed scenarioLimb
   \<and> Vector2_length
       (Vector2_subtract (pos (elbow (Limb_resolve 2000 2000 (Vec 0 0) 0 scenarioLimb))) (Vec 0 0))
       = 28 * sqrt 2
   \<and> 28 * sqrt 2 < 56 - 16"
proof -
  have c: "Limb_constructor (Vec 0 0) 56 (pi / 4) 0 (pi / 5) (- (pi / 4)) = Constructed scenarioLimb"
    by (simp add: Limb_constructor_def scenarioLimb_def Vector2_add_def Let_def)
  have "Vector2_length (Vector2_subtract (Vec 0 (28 * sqrt 2)) (Vec 0 0)) = \<bar>28 * sqrt 2 - 0\<bar>"
    by (rule vertical_length)
  then have l: "Vector2_length
       (Vector2_subtract (pos (elbow (Limb_resolve 2000 2000 (Vec 0 0) 0 scenarioLimb))) (Vec 0 0))
       = 28 * sqrt 2"
    unfolding scenario_elbow by simp
  have "sqrt 2 < 10 / 7" by (rule real_less_lsqrt) (simp_all add: power2_eq_square)
  then have b: "28 * sqrt 2 < 56 - 16" by linarith
  from c l b show ?thesis by blast
qed

section \<open>Blob.update\<close>

subsection \<open>Vectors\<close>

lemma sq_sum_pos: "v \<noteq> Vec 0 0 \<Longrightarrow> 0 < vx v * vx v + vy v * vy v"
proof -
  assume "v \<noteq> Vec 0 0"
  then have "vx v \<noteq> 0 \<or> vy v \<noteq> 0" by (cases v) simp
  then have "0 < (vx v)\<^sup>2 + (vy v)\<^sup>2" by (auto simp: sum_power2_gt_zero_iff)
  then show ?thesis by (simp add: power2_eq_square)
qed

lemma Vector2_length_zero_iff: "Vector2_length v = 0 \<longleftrightarrow> v = Vec 0 0"
proof
  assume "Vector2_length v = 0"
  then have "(vx v)\<^sup>2 + (vy v)\<^sup>2 = 0"
    by (simp add: Vector2_length_def power2_eq_square)
  then show "v = Vec 0 0" by (cases v) (simp add: sum_power2_eq_zero_iff)
next
  assume "v = Vec 0 0"
  then show "Vector2_length v = 0" by (simp add: Vector2_length_def)
qed

lemma Vector2_length_nonneg: "0 \<le> Vector2_length v"
  by (simp add: Vector2_length_def)

lemma normalize_zero: "Vector2_normalize (Vec 0 0) = Vec 0 0"
  by (simp add: Vector2_normalize_def)

lemma setLength_zero: "Vector2_setLength (Vec 0 0) k = Vec 0 0"
  by (cases k) (simp_all add: Vector2_setLength_def normalize_zero Vector2_scale_def)

lemma setLength_nonfinite: "Vector2_setLength v None = Vec 0 0"
  by (simp add: Vector2_setLength_def Vector2_scale_def)

lemma normalize_eq:
  "v \<noteq> Vec 0 0 \<Longrightarrow>
     Vector2_normalize v = Vec (vx v / Vector2_length v) (vy v / Vector2_length v)"
  by (simp add: Vector2_normalize_def Vector2_length_def sq_sum_pos Let_def)

lemma setLength_eq:
  "v \<noteq> Vec 0 0 \<Longrightarrow>
     Vector2_setLength v (Some r)
       = Vec (vx v * (r / Vector2_length v)) (vy v * (r / Vector2_length v))"
  by (simp add: Vector2_setLength_def normalize_eq Vector2_scale_def)

lemma scaled_length: "Vector2_length (Vec (vx v * k) (vy v * k)) = \<bar>k\<bar> * Vector2_length v"
proof -
  have "(vx v * k) * (vx v * k) + (vy v * k) * (vy v * k)
          = k\<^sup>2 * (vx v * vx v + vy v * vy v)"
    by (simp add: power2_eq_square algebra_simps)
  then show ?thesis by (simp add: Vector2_length_def real_sqrt_mult)
qed


subsection \<open>The repulsion and the clamp\<close>





lemma collide_coincident: "pos p = q \<Longrightarrow> collideWithPointer (Some q) p = p"
proof -
  assume e: "pos p = q"
  have "Vector2_subtract q q = Vec 0 0" by (simp add: Vector2_subtract_def)
  then have "Vector2_add q (Vector2_setLength (Vector2_subtract q q) (Some 100)) = q"
    by (simp add: setLength_zero Vector2_add_def)
  then show ?thesis
    using e by (simp add: collideWithPointer_def Let_def)
qed




lemma collisions_None: "collisions w h None p = keepInBounds w h p"
  by (simp add: collisions_def)




subsection \<open>The last pass of update\<close>

lemma update_points_Suc:
  "points (Blob_update w h ptr (Suc n) b)
     = map (collisions w h ptr)
         (displace b ((relax b w h ptr ^^ n)
            (map (\<lambda>p. applyGravity 1 (verletIntegrate 0.99 p)) (points b))))"
  by (simp add: Blob_update_def relax_def Let_def)




subsection \<open>The distance loop\<close>




lemma stretched_distinct:
  assumes "chord < Vector2_length (pairDiff ps i)" "0 \<le> chord"
  shows "pairDiff ps i \<noteq> Vec 0 0" and "(i + 1) mod length ps \<noteq> i"
proof -
  show nz: "pairDiff ps i \<noteq> Vec 0 0"
    using assms Vector2_length_zero_iff [of "pairDiff ps i"] by auto
  show "(i + 1) mod length ps \<noteq> i"
  proof
    assume "(i + 1) mod length ps = i"
    then have "pairDiff ps i = Vec 0 0" by (simp add: pairDiff_def Vector2_subtract_def)
    with nz show False by simp
  qed
qed

lemma distanceConstraint_stretched:
  assumes "chord < Vector2_length (pairDiff ps i)" "0 \<le> chord"
  shows "distanceConstraint chord i ps
           = ps[i := accumulateDisplacement (pairOffset chord ps i) (ps ! i),
                (i + 1) mod length ps :=
                  accumulateDisplacement (Vector2_scale (pairOffset chord ps i) (Some (- 1)))
                    (ps ! ((i + 1) mod length ps))]"
proof -
  have "(i + 1) mod length ps \<noteq> i" using assms by (rule stretched_distinct)
  then have "ps[i := accumulateDisplacement (pairOffset chord ps i) (ps ! i)] ! ((i + 1) mod length ps)
               = ps ! ((i + 1) mod length ps)"
    by simp
  then show ?thesis
    using assms(1) by (simp add: distanceConstraint_def pairOffset_def pairDiff_def Let_def)
qed




subsection \<open>Degenerate directions\<close>

lemma rotate_zero: "Vector2_rotate (Vec 0 0) delta = Vec 0 0"
  by (simp add: Vector2_rotate_def)

lemma dilationNormal_degenerate: "dilationNormal offset v v = Vec 0 0"
  by (simp add: dilationNormal_def Vector2_subtract_def rotate_zero setLength_zero)

lemma add_zero_vec: "Vector2_add v (Vec 0 0) = v"
  by (simp add: Vector2_add_def)

text \<open>
  Claim C8. A direction asked of the zero vector is the zero vector, for every length,
  finite or not: \<open>normalize\<close> leaves the zero vector as it is and \<open>setLength\<close> scales
  it; and a length that is not finite (the dilation offset of a blob of circumference
  0) gives the zero vector too. So a point exactly on the repulsion point is left where
  it is, and the dilation normal of a point whose two neighbours coincide is the zero
  vector, which leaves the accumulated displacement of the point as it is. Positions
  are real numbers in this model, non-finite values being \<open>None\<close> of type \<open>number\<close>.
\<close>

theorem degenerate_direction:
  "Vector2_normalize (Vec 0 0) = Vec 0 0
   \<and> Vector2_setLength (Vec 0 0) k = Vec 0 0
   \<and> Vector2_setLength w None = Vec 0 0
   \<and> collideWithPointer (Some (pos p)) p = p
   \<and> dilationNormal offset v v = Vec 0 0
   \<and> displacement (accumulateDisplacement (dilationNormal offset v v) bp) = displacement bp"
  by (simp add: normalize_zero setLength_zero setLength_nonfinite collide_coincident
        dilationNormal_degenerate accumulateDisplacement_def add_zero_vec)

subsection \<open>The length of the ring\<close>








subsection \<open>Evaluation on horizontal rings\<close>

lemma horizontal_length: "Vector2_length (Vec a 0) = \<bar>a\<bar>"
  by (simp add: Vector2_length_def)

lemma horizontal_setLength: "a \<noteq> 0 \<Longrightarrow> Vector2_setLength (Vec a 0) (Some r) = Vec (sgn a * r) 0"
proof -
  assume a: "a \<noteq> 0"
  then have nz: "Vec a 0 \<noteq> Vec 0 0" by simp
  have "a * (r / \<bar>a\<bar>) = sgn a * r" using a by (simp add: sgn_real_def abs_if)
  then show ?thesis unfolding setLength_eq [OF nz] by (simp add: horizontal_length)
qed

lemma vertical_length2: "Vector2_length (Vec 0 a) = \<bar>a\<bar>"
  by (simp add: Vector2_length_def)

lemma vertical_setLength: "a \<noteq> 0 \<Longrightarrow> Vector2_setLength (Vec 0 a) (Some r) = Vec 0 (sgn a * r)"
proof -
  assume a: "a \<noteq> 0"
  then have nz: "Vec 0 a \<noteq> Vec 0 0" by simp
  have "a * (r / \<bar>a\<bar>) = sgn a * r" using a by (simp add: sgn_real_def abs_if)
  then show ?thesis unfolding setLength_eq [OF nz] by (simp add: vertical_length2)
qed

lemma rotate_quarter: "Vector2_rotate (Vec a b) (- pi / 2) = Vec b (- a)"
proof -
  have "cos (- pi / 2) = 0" "sin (- pi / 2) = - 1"
    using cos_minus [of "pi / 2"] sin_minus [of "pi / 2"] by simp_all
  then show ?thesis by (simp add: Vector2_rotate_def)
qed

lemma dilationNormal_horizontal:
  assumes "a \<noteq> b"
  shows "dilationNormal (Some k) (Vec a c) (Vec b c) = Vec 0 (sgn (a - b) * k)"
proof -
  have "dilationNormal (Some k) (Vec a c) (Vec b c)
          = Vector2_setLength (Vector2_rotate (Vec (b - a) 0) (- pi / 2)) (Some k)"
    by (simp add: dilationNormal_def Vector2_subtract_def)
  also have "\<dots> = Vector2_setLength (Vec 0 (a - b)) (Some k)"
    unfolding rotate_quarter by simp
  also have "\<dots> = Vec 0 (sgn (a - b) * k)"
    using assms by (intro vertical_setLength) simp
  finally show ?thesis .
qed

lemma upt_3: "[0..<3] = [0, 1, 2]"
  by (simp add: upt_rec)

lemma rest_step:
  "applyGravity 1 (verletIntegrate d (new_BlobPoint (Vec a b))) = ringPoint a (b + 1) a b"
  by (simp add: new_BlobPoint_def verletIntegrate_def applyGravity_def Vector2_add_def
        Vector2_subtract_def Vector2_scale_def Let_def ringPoint_def)


lemma pi_bounds: "2 \<le> pi" "pi < 4" "0 < pi"
  using pi_ge_two pi_less_4 by simp_all

lemma dilation_ring3:
  "fold (dilation offset) [0..<length [p0, p1, p2]] [p0, p1, p2]
     = [accumulateDisplacement (dilationNormal offset (pos p2) (pos p1)) p0,
        accumulateDisplacement (dilationNormal offset (pos p0) (pos p2)) p1,
        accumulateDisplacement (dilationNormal offset (pos p1) (pos p0)) p2]"
proof -
  have l: "length [p0, p1, p2] = 3" by simp
  have a: "pos (accumulateDisplacement v p) = pos p" for v p
    by (simp add: accumulateDisplacement_def)
  show ?thesis
    unfolding l upt_3 by (simp add: dilation_def Let_def a)
qed


lemma update_once:
  "points (Blob_update w h ptr 1 b)
     = map (collisions w h ptr)
         (displace b (map (\<lambda>p. applyGravity 1 (verletIntegrate 0.99 p)) (points b)))"
  using update_points_Suc [of w h ptr 0 b] by simp


lemma keepInBounds_ringPoint:
  "0 \<le> a \<Longrightarrow> a \<le> w \<Longrightarrow> 0 \<le> b \<Longrightarrow> b \<le> h \<Longrightarrow> keepInBounds w h (ringPoint a b c d) = ringPoint a b c d"
  by (simp add: keepInBounds_def ringPoint_def Clamp_def)





subsection \<open>The target of the distance correction\<close>

lemma accumulate_increment:
  "Vector2_subtract (displacement (accumulateDisplacement v p)) (displacement p) = v"
  by (cases v) (simp add: accumulateDisplacement_def Vector2_add_def Vector2_subtract_def)

lemma pulled_pair:
  "Vector2_subtract
     (Vector2_add b (Vector2_scale (Vec (vx (Vector2_subtract b a) * t) (vy (Vector2_subtract b a) * t))
                       (Some (- 1))))
     (Vector2_add a (Vec (vx (Vector2_subtract b a) * t) (vy (Vector2_subtract b a) * t)))
   = Vec (vx (Vector2_subtract b a) * (1 - 2 * t)) (vy (Vector2_subtract b a) * (1 - 2 * t))"
  by (simp add: Vector2_subtract_def Vector2_add_def Vector2_scale_def algebra_simps)

lemma relaxed_pair:
  assumes nz: "d \<noteq> Vec 0 0" and c: "0 \<le> chord"
    and o: "off = Vector2_setLength d (Some ((Vector2_length d - chord) / 2))"
    and d: "d = Vector2_subtract b a"
  shows "Vector2_length
           (Vector2_subtract (Vector2_add b (Vector2_scale off (Some (- 1)))) (Vector2_add a off))
         = chord"
proof -
  let ?m = "Vector2_length d"
  have m: "0 < ?m"
    using nz Vector2_length_zero_iff [of d] Vector2_length_nonneg [of d] by linarith
  have off: "off = Vec (vx d * ((?m - chord) / 2 / ?m)) (vy d * ((?m - chord) / 2 / ?m))"
    unfolding o setLength_eq [OF nz] ..
  have k: "1 - 2 * ((?m - chord) / 2 / ?m) = chord / ?m"
    using m by (simp add: field_simps)
  have "Vector2_subtract (Vector2_add b (Vector2_scale off (Some (- 1)))) (Vector2_add a off)
          = Vec (vx d * (1 - 2 * ((?m - chord) / 2 / ?m))) (vy d * (1 - 2 * ((?m - chord) / 2 / ?m)))"
    unfolding off unfolding d by (rule pulled_pair)
  then have "Vector2_length
           (Vector2_subtract (Vector2_add b (Vector2_scale off (Some (- 1)))) (Vector2_add a off))
         = \<bar>chord / ?m\<bar> * ?m"
    unfolding k by (simp only: scaled_length)
  also have "\<dots> = chord" using m c by simp
  finally show ?thesis .
qed

text \<open>
  Claim C4, as amended. \<open>update\<close> does not bound the distance of adjacent points by the
  chord length. What the distance loop does for a pair whose distance exceeds the chord
  length (the chord length being non-negative): the two corrections that it adds to the
  accumulators of the pair, applied to the two positions by themselves, bring the pair
  to distance exactly the chord length.
\<close>

theorem distance_step_target:
  assumes "chord < Vector2_length (pairDiff ps i)" "0 \<le> chord" "i < length ps"
  shows "Vector2_length
           (Vector2_subtract
              (Vector2_add (pos (ps ! ((i + 1) mod length ps)))
                 (Vector2_subtract
                    (displacement (distanceConstraint chord i ps ! ((i + 1) mod length ps)))
                    (displacement (ps ! ((i + 1) mod length ps)))))
              (Vector2_add (pos (ps ! i))
                 (Vector2_subtract (displacement (distanceConstraint chord i ps ! i))
                    (displacement (ps ! i)))))
         = chord"
proof -
  let ?j = "(i + 1) mod length ps"
  have nz: "pairDiff ps i \<noteq> Vec 0 0" and ne: "?j \<noteq> i"
    using assms(1,2) by (rule stretched_distinct)+
  have "0 < length ps" using assms(3) by linarith
  then have j: "?j < length ps" by (rule mod_less_divisor)
  have s: "distanceConstraint chord i ps
           = ps[i := accumulateDisplacement (pairOffset chord ps i) (ps ! i),
                ?j := accumulateDisplacement (Vector2_scale (pairOffset chord ps i) (Some (- 1)))
                    (ps ! ?j)]"
    using assms(1,2) by (rule distanceConstraint_stretched)
  have ri: "distanceConstraint chord i ps ! i = accumulateDisplacement (pairOffset chord ps i) (ps ! i)"
    unfolding s using ne assms(3) by simp
  have rj: "distanceConstraint chord i ps ! ?j
              = accumulateDisplacement (Vector2_scale (pairOffset chord ps i) (Some (- 1))) (ps ! ?j)"
    unfolding s using j by simp
  show ?thesis
    unfolding ri rj accumulate_increment
    by (rule relaxed_pair [OF nz assms(2)]) (simp_all only: pairOffset_def pairDiff_def)
qed

subsection \<open>The stretched ring\<close>

lemma stretched_ps0:
  "map (\<lambda>p. applyGravity 1 (verletIntegrate 0.99 p)) (points stretchedBlob)
     = [ringPoint 1000 1000 1000 999, ringPoint 2000 1000 2000 999, ringPoint 3000 1000 3000 999]"
  by (simp add: stretchedBlob_def rest_step)

lemma distance_ring3:
  assumes "chord < Vector2_length (Vector2_subtract (pos p1) (pos p0))"
    and "chord < Vector2_length (Vector2_subtract (pos p2) (pos p1))"
    and "chord < Vector2_length (Vector2_subtract (pos p0) (pos p2))"
  shows "fold (distanceConstraint chord) [0..<length [p0, p1, p2]] [p0, p1, p2]
     = [accumulateDisplacement
          (Vector2_scale (pairOffset chord [p0, p1, p2] 2) (Some (- 1)))
          (accumulateDisplacement (pairOffset chord [p0, p1, p2] 0) p0),
        accumulateDisplacement (pairOffset chord [p0, p1, p2] 1)
          (accumulateDisplacement
             (Vector2_scale (pairOffset chord [p0, p1, p2] 0) (Some (- 1))) p1),
        accumulateDisplacement (pairOffset chord [p0, p1, p2] 2)
          (accumulateDisplacement
             (Vector2_scale (pairOffset chord [p0, p1, p2] 1) (Some (- 1))) p2)]"
proof -
  have l: "length [p0, p1, p2] = 3" by simp
  have a: "pos (accumulateDisplacement v p) = pos p" for v p
    by (simp add: accumulateDisplacement_def)
  show ?thesis
    unfolding l upt_3 using assms
    by (simp add: distanceConstraint_def pairOffset_def pairDiff_def Let_def a)
qed

lemma stretched_chord: "0 < chordLength stretchedBlob" "chordLength stretchedBlob < 134"
  using pi_bounds by (simp_all add: stretchedBlob_def)

lemma pos_accumulate: "pos (accumulateDisplacement v p) = pos p"
  by (simp add: accumulateDisplacement_def)

lemma stretched_offsets:
  fixes c :: real
  defines "ps \<equiv> [ringPoint 1000 1000 1000 999, ringPoint 2000 1000 2000 999, ringPoint 3000 1000 3000 999]"
  shows "pairOffset c ps 0 = Vec ((1000 - c) / 2) 0"
    and "pairOffset c ps 1 = Vec ((1000 - c) / 2) 0"
    and "pairOffset c ps 2 = Vec (- ((2000 - c) / 2)) 0"
proof -
  have d: "pairDiff ps 0 = Vec 1000 0" "pairDiff ps 1 = Vec 1000 0" "pairDiff ps 2 = Vec (- 2000) 0"
    unfolding ps_def by (simp_all add: pairDiff_def ringPoint_def Vector2_subtract_def)
  show "pairOffset c ps 0 = Vec ((1000 - c) / 2) 0"
    unfolding pairOffset_def d by (simp add: horizontal_length horizontal_setLength)
  show "pairOffset c ps 1 = Vec ((1000 - c) / 2) 0"
    unfolding pairOffset_def d by (simp add: horizontal_length horizontal_setLength)
  have "sgn (- 2000 :: real) = - 1" "\<bar>- 2000 :: real\<bar> = 2000" by simp_all
  then have e: "sgn (- 2000) * ((\<bar>- 2000\<bar> - c) / 2) = - ((2000 - c) / 2)"
    by (simp only: mult_minus1)
  have "Vector2_setLength (Vec (- 2000) 0) (Some ((\<bar>- 2000\<bar> - c) / 2))
          = Vec (sgn (- 2000) * ((\<bar>- 2000\<bar> - c) / 2)) 0"
    by (rule horizontal_setLength) simp
  then show "pairOffset c ps 2 = Vec (- ((2000 - c) / 2)) 0"
    unfolding pairOffset_def d horizontal_length e .
qed

lemma apply_three:
  "applyDisplacement
     (accumulateDisplacement (Vec a3 b3)
        (accumulateDisplacement (Vec a2 b2) (accumulateDisplacement (Vec a1 b1) (ringPoint a b c d))))
   = ringPoint (a + (a1 + a2 + a3) / 3) (b + (b1 + b2 + b3) / 3) c d"
  by (simp add: applyDisplacement_def accumulateDisplacement_def ringPoint_def Vector2_add_def
        Vector2_scale_def js_div_def Let_def)

lemma stretched_displace:
  fixes c :: real
  defines "c \<equiv> chordLength stretchedBlob"
  shows "displace stretchedBlob [ringPoint 1000 1000 1000 999, ringPoint 2000 1000 2000 999, ringPoint 3000 1000 3000 999]
     = [ringPoint (1000 + (1500 - c) / 3) (1000 + 25 / 3) 1000 999,
        ringPoint 2000 (1000 - 25 / 3) 2000 999,
        ringPoint (3000 - (1500 - c) / 3) (1000 + 25 / 3) 3000 999]"
proof -
  let ?p0 = "ringPoint 1000 1000 1000 999" and ?p1 = "ringPoint 2000 1000 2000 999" and ?p2 = "ringPoint 3000 1000 3000 999"
  let ?ps = "[?p0, ?p1, ?p2]"
  let ?o = "Vec ((1000 - c) / 2) 0" and ?o2 = "Vec (- ((2000 - c) / 2)) 0"
  let ?q0 = "accumulateDisplacement (Vector2_scale ?o2 (Some (- 1))) (accumulateDisplacement ?o ?p0)"
  let ?q1 = "accumulateDisplacement ?o (accumulateDisplacement (Vector2_scale ?o (Some (- 1))) ?p1)"
  let ?q2 = "accumulateDisplacement ?o2 (accumulateDisplacement (Vector2_scale ?o (Some (- 1))) ?p2)"
  have cb: "0 < c" "c < 134" unfolding c_def by (rule stretched_chord)+
  have pp: "pos ?p0 = Vec 1000 1000" "pos ?p1 = Vec 2000 1000" "pos ?p2 = Vec 3000 1000"
    by (simp_all add: ringPoint_def)
  have "fold (distanceConstraint c) [0..<length ?ps] ?ps
          = [accumulateDisplacement (Vector2_scale (pairOffset c ?ps 2) (Some (- 1)))
               (accumulateDisplacement (pairOffset c ?ps 0) ?p0),
             accumulateDisplacement (pairOffset c ?ps 1)
               (accumulateDisplacement (Vector2_scale (pairOffset c ?ps 0) (Some (- 1))) ?p1),
             accumulateDisplacement (pairOffset c ?ps 2)
               (accumulateDisplacement (Vector2_scale (pairOffset c ?ps 1) (Some (- 1))) ?p2)]"
    by (rule distance_ring3)
       (use cb in \<open>simp_all add: pp Vector2_subtract_def horizontal_length\<close>)
  then have d1: "fold (distanceConstraint c) [0..<length ?ps] ?ps = [?q0, ?q1, ?q2]"
    unfolding stretched_offsets .
  have l: "length [?q0, ?q1, ?q2] = 3" by simp
  have ar: "getArea [?q0, ?q1, ?q2] = 0"
    unfolding getArea_def l upt_3 by (simp add: pos_accumulate pp Let_def)
  have off: "js_div (area stretchedBlob - getArea [?q0, ?q1, ?q2]) (circumference stretchedBlob) = Some 25"
    unfolding ar by (simp add: js_div_def stretchedBlob_def)
  have n0: "dilationNormal (Some 25) (Vec 3000 1000) (Vec 2000 1000) = Vec 0 25"
    by (subst dilationNormal_horizontal) simp_all
  have n1: "dilationNormal (Some 25) (Vec 1000 1000) (Vec 3000 1000) = Vec 0 (- 25)"
    by (subst dilationNormal_horizontal) simp_all
  have n2: "dilationNormal (Some 25) (Vec 2000 1000) (Vec 1000 1000) = Vec 0 25"
    by (subst dilationNormal_horizontal) simp_all
  have d2: "fold (dilation (Some 25)) [0..<length [?q0, ?q1, ?q2]] [?q0, ?q1, ?q2]
      = [accumulateDisplacement (Vec 0 25) ?q0, accumulateDisplacement (Vec 0 (- 25)) ?q1,
         accumulateDisplacement (Vec 0 25) ?q2]"
    unfolding dilation_ring3 pos_accumulate pp n0 n1 n2 ..
  have sc: "Vector2_scale (Vec a b) (Some (- 1)) = Vec (- a) (- b)" for a b
    by (simp add: Vector2_scale_def)
  have "displace stretchedBlob ?ps
          = map applyDisplacement (fold (dilation (Some 25)) [0..<length [?q0, ?q1, ?q2]] [?q0, ?q1, ?q2])"
    unfolding displace_def Let_def c_def [symmetric] d1 off ..
  also have "\<dots> = [ringPoint (1000 + (1500 - c) / 3) (1000 + 25 / 3) 1000 999,
        ringPoint 2000 (1000 - 25 / 3) 2000 999,
        ringPoint (3000 - (1500 - c) / 3) (1000 + 25 / 3) 3000 999]"
    unfolding d2 unfolding sc list.map apply_three by (simp add: ringPoint_def field_simps)
  finally show ?thesis .
qed

lemma abs_vx_le_length: "\<bar>vx v\<bar> \<le> Vector2_length v"
proof -
  have "\<bar>vx v\<bar> = sqrt ((vx v)\<^sup>2)" by simp
  also have "\<dots> \<le> sqrt ((vx v)\<^sup>2 + (vy v)\<^sup>2)" by (rule real_sqrt_le_mono) simp
  finally show ?thesis by (simp add: Vector2_length_def power2_eq_square)
qed

lemma stretched_after_one:
  "chordLength stretchedBlob + 100
     < Vector2_length (pairDiff (points (Blob_update 10000 10000 None 1 stretchedBlob)) 0)"
proof -
  let ?c = "chordLength stretchedBlob"
  let ?q0 = "ringPoint (1000 + (1500 - ?c) / 3) (1000 + 25 / 3) 1000 999"
  let ?q1 = "ringPoint 2000 (1000 - 25 / 3) 2000 999"
  let ?q2 = "ringPoint (3000 - (1500 - ?c) / 3) (1000 + 25 / 3) 3000 999"
  have cb: "0 < ?c" "?c < 134" by (rule stretched_chord)+
  define t where "t = (1500 - ?c) / 3"
  have t: "0 \<le> t" "t \<le> 500"
    unfolding t_def using cb by simp_all
  have "keepInBounds 10000 10000 (ringPoint (1000 + t) (1000 + 25 / 3) 1000 999)
          = ringPoint (1000 + t) (1000 + 25 / 3) 1000 999"
    by (rule keepInBounds_ringPoint) (use t in simp_all)
  then have k0: "keepInBounds 10000 10000 ?q0 = ?q0" unfolding t_def .
  have k1: "keepInBounds 10000 10000 ?q1 = ?q1"
    by (rule keepInBounds_ringPoint) simp_all
  have "keepInBounds 10000 10000 (ringPoint (3000 - t) (1000 + 25 / 3) 3000 999)
          = ringPoint (3000 - t) (1000 + 25 / 3) 3000 999"
    by (rule keepInBounds_ringPoint) (use t in simp_all)
  then have k2: "keepInBounds 10000 10000 ?q2 = ?q2" unfolding t_def .
  note k = k0 k1 k2
  have e: "points (Blob_update 10000 10000 None 1 stretchedBlob) = [?q0, ?q1, ?q2]"
    unfolding update_once stretched_ps0 stretched_displace list.map collisions_None k ..
  have "vx (pairDiff [?q0, ?q1, ?q2] 0) = 2000 - (1000 + (1500 - ?c) / 3)"
    by (simp add: pairDiff_def ringPoint_def Vector2_subtract_def)
  also have "\<dots> = 500 + ?c / 3" by argo
  finally have "vx (pairDiff [?q0, ?q1, ?q2] 0) = 500 + ?c / 3" .
  then have "500 + ?c / 3 \<le> Vector2_length (pairDiff [?q0, ?q1, ?q2] 0)"
    using abs_vx_le_length [of "pairDiff [?q0, ?q1, ?q2] 0"] by linarith
  then show ?thesis unfolding e using cb by linarith
qed

subsection \<open>The ring in the corners of the world\<close>

lemma pi_ge_three: "3 \<le> pi"
proof -
  have "sin (pi / 6) \<le> pi / 6" by (rule sin_x_le_x) simp
  then show ?thesis by (simp add: sin_30)
qed

lemma upt_4: "[0..<4] = [0, 1, 2, 3]"
  by (simp add: upt_rec)

lemma distance_ring4:
  assumes "chord < Vector2_length (Vector2_subtract (pos p1) (pos p0))"
    and "chord < Vector2_length (Vector2_subtract (pos p2) (pos p1))"
    and "chord < Vector2_length (Vector2_subtract (pos p3) (pos p2))"
    and "chord < Vector2_length (Vector2_subtract (pos p0) (pos p3))"
  shows "fold (distanceConstraint chord) [0..<length [p0, p1, p2, p3]] [p0, p1, p2, p3]
     = [accumulateDisplacement
          (Vector2_scale (pairOffset chord [p0, p1, p2, p3] 3) (Some (- 1)))
          (accumulateDisplacement (pairOffset chord [p0, p1, p2, p3] 0) p0),
        accumulateDisplacement (pairOffset chord [p0, p1, p2, p3] 1)
          (accumulateDisplacement
             (Vector2_scale (pairOffset chord [p0, p1, p2, p3] 0) (Some (- 1))) p1),
        accumulateDisplacement (pairOffset chord [p0, p1, p2, p3] 2)
          (accumulateDisplacement
             (Vector2_scale (pairOffset chord [p0, p1, p2, p3] 1) (Some (- 1))) p2),
        accumulateDisplacement (pairOffset chord [p0, p1, p2, p3] 3)
          (accumulateDisplacement
             (Vector2_scale (pairOffset chord [p0, p1, p2, p3] 2) (Some (- 1))) p3)]"
proof -
  have l: "length [p0, p1, p2, p3] = 4" by simp
  show ?thesis
    unfolding l upt_4 using assms
    by (simp add: distanceConstraint_def pairOffset_def pairDiff_def Let_def pos_accumulate)
qed

lemma dilation_ring4:
  "fold (dilation offset) [0..<length [p0, p1, p2, p3]] [p0, p1, p2, p3]
     = [accumulateDisplacement (dilationNormal offset (pos p3) (pos p1)) p0,
        accumulateDisplacement (dilationNormal offset (pos p0) (pos p2)) p1,
        accumulateDisplacement (dilationNormal offset (pos p1) (pos p3)) p2,
        accumulateDisplacement (dilationNormal offset (pos p2) (pos p0)) p3]"
proof -
  have l: "length [p0, p1, p2, p3] = 4" by simp
  show ?thesis
    unfolding l upt_4 by (simp add: dilation_def Let_def pos_accumulate)
qed

lemma diagonal_setLength:
  assumes "a \<noteq> 0" "\<bar>b\<bar> = \<bar>a\<bar>"
  shows "Vector2_setLength (Vec a b) (Some k) = Vec (sgn a * (k / sqrt 2)) (sgn b * (k / sqrt 2))"
proof -
  have nz: "Vec a b \<noteq> Vec 0 0" using assms(1) by simp
  have "b * b = a * a" using assms(2) by (metis abs_mult_self_eq)
  then have "Vector2_length (Vec a b) = sqrt (2 * (a * a))" by (simp add: Vector2_length_def)
  also have "\<dots> = sqrt 2 * \<bar>a\<bar>" by (simp add: real_sqrt_mult)
  finally have len: "Vector2_length (Vec a b) = sqrt 2 * \<bar>a\<bar>" .
  have g: "c * (k / (sqrt 2 * \<bar>c\<bar>)) = sgn c * (k / sqrt 2)" if "c \<noteq> 0" for c :: real
    using that by (simp add: sgn_real_def abs_if)
  have x: "a * (k / (sqrt 2 * \<bar>a\<bar>)) = sgn a * (k / sqrt 2)"
    using assms(1) by (rule g)
  have "b \<noteq> 0" using assms by auto
  then have "b * (k / (sqrt 2 * \<bar>b\<bar>)) = sgn b * (k / sqrt 2)" by (rule g)
  then have y: "b * (k / (sqrt 2 * \<bar>a\<bar>)) = sgn b * (k / sqrt 2)"
    unfolding assms(2) .
  show ?thesis unfolding setLength_eq [OF nz] len vector2.sel x y ..
qed

lemma dilationNormal_diagonal:
  assumes "a \<noteq> 0" "\<bar>b\<bar> = \<bar>a\<bar>"
  shows "dilationNormal (Some k) (Vec x0 y0) (Vec (x0 + a) (y0 + b))
           = Vec (sgn b * (k / sqrt 2)) (- sgn a * (k / sqrt 2))"
proof -
  have "dilationNormal (Some k) (Vec x0 y0) (Vec (x0 + a) (y0 + b))
          = Vector2_setLength (Vector2_rotate (Vec a b) (- pi / 2)) (Some k)"
    by (simp add: dilationNormal_def Vector2_subtract_def)
  also have "\<dots> = Vector2_setLength (Vec b (- a)) (Some k)"
    unfolding rotate_quarter ..
  also have "\<dots> = Vec (sgn b * (k / sqrt 2)) (sgn (- a) * (k / sqrt 2))"
    using assms by (intro diagonal_setLength) auto
  finally show ?thesis by (simp add: sgn_minus)
qed

lemma corner_constants:
  fixes c e k t :: real
  defines "c \<equiv> chordLength cornerBlob"
    and "e \<equiv> (1000 - chordLength cornerBlob) / 2"
    and "k \<equiv> (area cornerBlob - 1000000) / circumference cornerBlob"
  defines "t \<equiv> (k / sqrt 2 - e) / 3"
  shows "c < 900" and "0 \<le> c" and "1 \<le> t"
proof -
  have p: "3 \<le> pi" "pi < 4" using pi_ge_three pi_less_4 by simp_all
  show "c < 900" "0 \<le> c" using p by (simp_all add: c_def cornerBlob_def)
  have e: "e \<le> 325 / 2" using p by (simp add: e_def cornerBlob_def)
  have "k = 675 - 10000 / (9 * pi)"
    by (simp add: k_def cornerBlob_def field_simps)
  moreover have "10000 / (9 * pi) \<le> 10000 / (9 * 3)"
    using p by (intro divide_left_mono) simp_all
  ultimately have k: "304 \<le> k" by simp
  have s2: "sqrt 2 \<le> 3 / 2" by (rule real_le_lsqrt) (simp_all add: power2_eq_square)
  define q where "q = k / sqrt 2"
  have qk: "q * sqrt 2 = k" by (simp add: q_def)
  have q0: "0 \<le> q" using k by (simp add: q_def)
  have "q * sqrt 2 \<le> q * (3 / 2)" using s2 q0 by (rule mult_left_mono)
  then have "202 \<le> q" using qk k by linarith
  with e have "3 \<le> q - e" by linarith
  then have "1 \<le> (q - e) / 3" by simp
  then show "1 \<le> t" unfolding t_def q_def .
qed

lemma corner_displace:
  fixes s :: real
  defines "e \<equiv> (1000 - chordLength cornerBlob) / 2"
    and "k \<equiv> (area cornerBlob - 1000000) / circumference cornerBlob"
  shows "displace cornerBlob (cornerRing s 0) = cornerRing s ((k / sqrt 2 - e) / 3)"
proof -
  let ?c = "chordLength cornerBlob"
  let ?p0 = "ringPoint 0 s 0 0" and ?p1 = "ringPoint 1000 s 1000 0"
  let ?p2 = "ringPoint 1000 (1000 + s) 1000 1000" and ?p3 = "ringPoint 0 (1000 + s) 0 1000"
  let ?ps = "[?p0, ?p1, ?p2, ?p3]"
  define q where "q = k / sqrt 2"
  have ring: "cornerRing s 0 = ?ps" by (simp add: cornerRing_def)
  have cb: "?c < 900" "0 \<le> ?c" by (rule corner_constants)+
  have pp: "pos ?p0 = Vec 0 s" "pos ?p1 = Vec 1000 s" "pos ?p2 = Vec 1000 (1000 + s)"
    "pos ?p3 = Vec 0 (1000 + s)"
    by (simp_all add: ringPoint_def)
  have df: "pairDiff ?ps 0 = Vec 1000 0" "pairDiff ?ps 1 = Vec 0 1000"
    "pairDiff ?ps 2 = Vec (- 1000) 0" "pairDiff ?ps 3 = Vec 0 (- 1000)"
    by (simp_all add: pairDiff_def ringPoint_def Vector2_subtract_def)
  have sg: "sgn (1000::real) = 1" "sgn (- 1000::real) = - 1" "\<bar>1000::real\<bar> = 1000"
    "\<bar>- 1000::real\<bar> = 1000" by simp_all
  have o0: "pairOffset ?c ?ps 0 = Vec e 0"
    unfolding pairOffset_def df horizontal_length sg e_def [symmetric]
    by (subst horizontal_setLength) simp_all
  have o1: "pairOffset ?c ?ps 1 = Vec 0 e"
    unfolding pairOffset_def df vertical_length2 sg e_def [symmetric]
    by (subst vertical_setLength) simp_all
  have o2: "pairOffset ?c ?ps 2 = Vec (- e) 0"
    unfolding pairOffset_def df horizontal_length sg e_def [symmetric]
    by (subst horizontal_setLength) simp_all
  have o3: "pairOffset ?c ?ps 3 = Vec 0 (- e)"
    unfolding pairOffset_def df vertical_length2 sg e_def [symmetric]
    by (subst vertical_setLength) simp_all
  let ?q0 = "accumulateDisplacement (Vec 0 e) (accumulateDisplacement (Vec e 0) ?p0)"
  let ?q1 = "accumulateDisplacement (Vec 0 e) (accumulateDisplacement (Vec (- e) 0) ?p1)"
  let ?q2 = "accumulateDisplacement (Vec (- e) 0) (accumulateDisplacement (Vec 0 (- e)) ?p2)"
  let ?q3 = "accumulateDisplacement (Vec 0 (- e)) (accumulateDisplacement (Vec e 0) ?p3)"
  have sc: "Vector2_scale (Vec a b) (Some (- 1)) = Vec (- a) (- b)" for a b
    by (simp add: Vector2_scale_def)
  have "fold (distanceConstraint ?c) [0..<length ?ps] ?ps
          = [accumulateDisplacement (Vector2_scale (pairOffset ?c ?ps 3) (Some (- 1)))
               (accumulateDisplacement (pairOffset ?c ?ps 0) ?p0),
             accumulateDisplacement (pairOffset ?c ?ps 1)
               (accumulateDisplacement (Vector2_scale (pairOffset ?c ?ps 0) (Some (- 1))) ?p1),
             accumulateDisplacement (pairOffset ?c ?ps 2)
               (accumulateDisplacement (Vector2_scale (pairOffset ?c ?ps 1) (Some (- 1))) ?p2),
             accumulateDisplacement (pairOffset ?c ?ps 3)
               (accumulateDisplacement (Vector2_scale (pairOffset ?c ?ps 2) (Some (- 1))) ?p3)]"
    by (rule distance_ring4)
       (use cb in \<open>simp_all add: pp Vector2_subtract_def horizontal_length vertical_length2\<close>)
  then have d1: "fold (distanceConstraint ?c) [0..<length ?ps] ?ps = [?q0, ?q1, ?q2, ?q3]"
    unfolding o0 o1 o2 o3 sc by simp
  have l: "length [?q0, ?q1, ?q2, ?q3] = 4" by simp
  have ar: "getArea [?q0, ?q1, ?q2, ?q3] = 1000000"
    unfolding getArea_def l upt_4
    by (simp add: pos_accumulate ringPoint_def Let_def algebra_simps)
  have off: "js_div (area cornerBlob - getArea [?q0, ?q1, ?q2, ?q3]) (circumference cornerBlob)
               = Some k"
    unfolding ar k_def by (simp add: js_div_def cornerBlob_def)
  have n0: "dilationNormal (Some k) (Vec 0 (1000 + s)) (Vec 1000 s) = Vec (- q) (- q)"
    using dilationNormal_diagonal [of 1000 "- 1000" k 0 "1000 + s"] by (simp add: q_def)
  have n1: "dilationNormal (Some k) (Vec 0 s) (Vec 1000 (1000 + s)) = Vec q (- q)"
    using dilationNormal_diagonal [of 1000 1000 k 0 s] by (simp add: q_def add.commute)
  have n2: "dilationNormal (Some k) (Vec 1000 s) (Vec 0 (1000 + s)) = Vec q q"
    using dilationNormal_diagonal [of "- 1000" 1000 k 1000 s] by (simp add: q_def add.commute)
  have n3: "dilationNormal (Some k) (Vec 1000 (1000 + s)) (Vec 0 s) = Vec (- q) q"
    using dilationNormal_diagonal [of "- 1000" "- 1000" k 1000 "1000 + s"] by (simp add: q_def)
  have d2: "fold (dilation (Some k)) [0..<length [?q0, ?q1, ?q2, ?q3]] [?q0, ?q1, ?q2, ?q3]
      = [accumulateDisplacement (Vec (- q) (- q)) ?q0, accumulateDisplacement (Vec q (- q)) ?q1,
         accumulateDisplacement (Vec q q) ?q2, accumulateDisplacement (Vec (- q) q) ?q3]"
    unfolding dilation_ring4 pos_accumulate pp n0 n1 n2 n3 ..
  have "displace cornerBlob ?ps
          = map applyDisplacement
              (fold (dilation (Some k)) [0..<length [?q0, ?q1, ?q2, ?q3]] [?q0, ?q1, ?q2, ?q3])"
    unfolding displace_def Let_def d1 off ..
  also have "\<dots> = cornerRing s ((q - e) / 3)"
    unfolding d2 list.map apply_three cornerRing_def by (simp add: ringPoint_def field_simps)
  finally show ?thesis unfolding ring q_def .
qed

lemma cornerRing_rest:
  "cornerRing 0 0 = [ringPoint 0 0 0 0, ringPoint 1000 0 1000 0, ringPoint 1000 1000 1000 1000,
                     ringPoint 0 1000 0 1000]"
  by (simp add: cornerRing_def)

lemma keepInBounds_corner:
  assumes "0 \<le> s" "s \<le> t"
  shows "map (keepInBounds 1000 1000) (cornerRing s t) = cornerRing 0 0"
proof -
  have t: "0 \<le> t" using assms by linarith
  have c: "Clamp (- t) 0 1000 = 0" "Clamp (s - t) 0 1000 = 0" "Clamp (1000 + t) 0 1000 = 1000"
    "Clamp (1000 + s + t) 0 1000 = 1000"
    unfolding Clamp_def using assms t by linarith+
  show ?thesis
    unfolding cornerRing_rest unfolding cornerRing_def list.map
    by (simp add: keepInBounds_def ringPoint_def c)
qed

lemma collide_corner:
  "map (collideWithPointer (Some (Vec 0 0))) (cornerRing 0 0) = cornerRing 0 0"
proof -
  have far: "collideWithPointer (Some (Vec 0 0)) (ringPoint a b c d) = ringPoint a b c d"
    if "100 \<le> \<bar>a\<bar>" for a b c d
  proof -
    have "\<bar>a\<bar> \<le> Vector2_length (Vec a b)" using abs_vx_le_length [of "Vec a b"] by simp
    with that have "\<not> Distance_Between a b 0 0 < 100"
      by (simp add: Distance_Between_def Vector2_length_def)
    then show ?thesis by (simp add: collideWithPointer_def ringPoint_def Let_def)
  qed
  have far': "collideWithPointer (Some (Vec 0 0)) (ringPoint 0 1000 c d) = ringPoint 0 1000 c d"
    for c d
    by (simp add: collideWithPointer_def ringPoint_def Let_def Distance_Between_def)
  have near: "collideWithPointer (Some (Vec 0 0)) (ringPoint 0 0 c d) = ringPoint 0 0 c d" for c d
    by (rule collide_coincident) (simp add: ringPoint_def)
  show ?thesis unfolding cornerRing_rest list.map by (simp add: far far' near)
qed

lemma relax_corner:
  assumes "0 \<le> s" "s \<le> 1" "ptr = None \<or> ptr = Some (Vec 0 0)"
  shows "relax cornerBlob 1000 1000 ptr (cornerRing s 0) = cornerRing 0 0"
proof -
  define t where
    "t = ((area cornerBlob - 1000000) / circumference cornerBlob / sqrt 2
           - (1000 - chordLength cornerBlob) / 2) / 3"
  have "1 \<le> t" unfolding t_def by (rule corner_constants)
  with assms(2) have st: "s \<le> t" by linarith
  have d: "displace cornerBlob (cornerRing s 0) = cornerRing s t"
    unfolding t_def by (rule corner_displace)
  have k: "map (keepInBounds 1000 1000) (cornerRing s t) = cornerRing 0 0"
    using assms(1) st by (rule keepInBounds_corner)
  from assms(3) show ?thesis
  proof
    assume "ptr = None"
    then have "collisions 1000 1000 ptr = keepInBounds 1000 1000"
      by (simp add: collisions_def fun_eq_iff)
    then show ?thesis unfolding relax_def d using k by simp
  next
    assume "ptr = Some (Vec 0 0)"
    then have "map (collisions 1000 1000 ptr) (cornerRing s t)
                 = map (collideWithPointer (Some (Vec 0 0)))
                     (map (keepInBounds 1000 1000) (cornerRing s t))"
      by (simp add: collisions_def)
    then show ?thesis unfolding relax_def d k collide_corner .
  qed
qed

lemma corner_ps0:
  "map (\<lambda>p. applyGravity 1 (verletIntegrate 0.99 p)) (points cornerBlob) = cornerRing 1 0"
  by (simp add: cornerBlob_def rest_step cornerRing_def)

lemma relax_corner_pow:
  assumes "ptr = None \<or> ptr = Some (Vec 0 0)"
  shows "(relax cornerBlob 1000 1000 ptr ^^ Suc n) (cornerRing 1 0) = cornerRing 0 0"
proof (induction n)
  case 0
  show ?case using relax_corner [of 1 ptr] assms by simp
next
  case (Suc n)
  have "(relax cornerBlob 1000 1000 ptr ^^ Suc (Suc n)) (cornerRing 1 0)
          = relax cornerBlob 1000 1000 ptr
              ((relax cornerBlob 1000 1000 ptr ^^ Suc n) (cornerRing 1 0))"
    by simp
  also have "\<dots> = cornerRing 0 0"
    unfolding Suc.IH using relax_corner [of 0 ptr] assms by simp
  finally show ?case .
qed

lemma update_corner:
  assumes "ptr = None \<or> ptr = Some (Vec 0 0)"
  shows "points (Blob_update 1000 1000 ptr (Suc n) cornerBlob) = cornerRing 0 0"
  using relax_corner_pow [OF assms, of n]
  by (simp only: Blob_update_def Let_def corner_ps0) simp

text \<open>
  One iteration on the stretched ring in a world of 10000 by 10000, without repulsion
  point: the points 0 and 1 end more than 100 farther apart than the chord length. And
  the default ten iterations on the corner blob in its world of 1000 by 1000: the
  dilation presses every point into its corner, where the clamp keeps it, so the points
  0 and 1 stay 1000 apart, the chord length being less than 900.
\<close>

theorem update_chord_counterexample:
  "chordLength stretchedBlob + 100
     < Vector2_length (pairDiff (points (Blob_update 10000 10000 None 1 stretchedBlob)) 0)
   \<and> chordLength cornerBlob + 100
     < Vector2_length (pairDiff (points (Blob_update 1000 1000 None 10 cornerBlob)) 0)"
proof -
  have "points (Blob_update 1000 1000 None (Suc 9) cornerBlob) = cornerRing 0 0"
    by (rule update_corner) simp
  then have "points (Blob_update 1000 1000 None 10 cornerBlob) = cornerRing 0 0"
    by simp
  then have "Vector2_length (pairDiff (points (Blob_update 1000 1000 None 10 cornerBlob)) 0) = 1000"
    by (simp add: cornerRing_rest pairDiff_def ringPoint_def Vector2_subtract_def
          horizontal_length)
  moreover have "chordLength cornerBlob < 900" by (rule corner_constants)
  ultimately show ?thesis using stretched_after_one by simp
qed


lemma exampleRing_diff: "pairDiff exampleRing 0 = Vec 10 0" "pairDiff exampleRing 1 = Vec 10 0"
  "pairDiff exampleRing 2 = Vec (- 20) 0"
  by (simp_all add: pairDiff_def exampleRing_def new_BlobPoint_def Vector2_subtract_def)

lemma exampleRing_mag: "Vector2_length (pairDiff exampleRing 0) = 10"
  "Vector2_length (pairDiff exampleRing 1) = 10" "Vector2_length (pairDiff exampleRing 2) = 20"
  unfolding exampleRing_diff by (simp_all add: horizontal_length)




text \<open>The pair 0 of the example ring with the chord length 4.\<close>

theorem distance_step_target_witness:
  "Vector2_length
     (Vector2_subtract
        (Vector2_add (Vec 10 0)
           (Vector2_subtract (displacement (distanceConstraint 4 0 exampleRing ! 1)) (Vec 0 0)))
        (Vector2_add (Vec 0 0)
           (Vector2_subtract (displacement (distanceConstraint 4 0 exampleRing ! 0)) (Vec 0 0))))
   = 4"
proof -
  have h: "4 < Vector2_length (pairDiff exampleRing 0)" "(0::real) \<le> 4" "0 < length exampleRing"
    using exampleRing_mag by (simp_all add: exampleRing_def)
  have l: "(0 + 1) mod length exampleRing = 1" by (simp add: exampleRing_def)
  have p: "pos (exampleRing ! 0) = Vec 0 0" "pos (exampleRing ! 1) = Vec 10 0"
    "displacement (exampleRing ! 0) = Vec 0 0" "displacement (exampleRing ! 1) = Vec 0 0"
    by (simp_all add: exampleRing_def new_BlobPoint_def)
  show ?thesis using distance_step_target [OF h] unfolding l p .
qed

section \<open>The constructors\<close>

text \<open>
  Claim C6, as amended. Neither constructor tests its arguments: for every argument
  tuple the constructor of \<open>Blob\<close> returns a blob with \<open>nat numPoints\<close> points (none
  when \<open>numPoints \<le> 0\<close>) and the rest quantities computed from the radius given, and
  the constructor of \<open>Limb\<close> returns a limb that holds the parameters given.
\<close>

theorem constructors_accept_all:
  "(\<exists>b. Blob_constructor origin numPoints r puffiness = Constructed b
        \<and> length (points b) = nat numPoints \<and> radius b = r
        \<and> area b = r * r * pi * puffiness \<and> circumference b = r * pi * 2)
   \<and> (\<exists>l. Limb_constructor origin' d eRange eOffset fRange fOffset = Constructed l
        \<and> distance l = d \<and> elbowRange l = eRange \<and> elbowOffset l = eOffset
        \<and> footRange l = fRange \<and> footOffset l = fOffset)"
  by (simp add: Blob_constructor_def Limb_constructor_def Let_def)

lemma layout_two:
  "layoutPoint (Vec 0 0) 2 50 0 = new_BlobPoint (Vec 0 (- 50))"
  "layoutPoint (Vec 0 0) 2 50 1 = new_BlobPoint (Vec 0 50)"
proof -
  have "cos (- (pi / 2)) = 0" "sin (- (pi / 2)) = - 1" by simp_all
  then show "layoutPoint (Vec 0 0) 2 50 0 = new_BlobPoint (Vec 0 (- 50))"
    by (simp add: layoutPoint_def Vector2_add_def Let_def)
  show "layoutPoint (Vec 0 0) 2 50 1 = new_BlobPoint (Vec 0 50)"
    by (simp add: layoutPoint_def Vector2_add_def Let_def)
qed

text \<open>
  Constructions that the specification wants rejected: a blob of two points, blobs of
  radius 0 and \<open>-128\<close>, limbs of segment length 0 and \<open>-56\<close>, a limb with the angle
  ranges \<open>-1\<close>.
\<close>

theorem constructors_reject_counterexample:
  "Blob_constructor (Vec 0 0) 2 50 1
     = Constructed \<lparr>points = [new_BlobPoint (Vec 0 (- 50)), new_BlobPoint (Vec 0 50)],
                    radius = 50, area = 2500 * pi, circumference = 100 * pi,
                    chordLength = 50 * pi\<rparr>
   \<and> Blob_constructor (Vec 0 0) 16 0 1 \<noteq> Rejected
   \<and> Blob_constructor (Vec 0 0) 16 (- 128) 1 \<noteq> Rejected
   \<and> Limb_constructor (Vec 0 0) 0 (pi / 4) 0 (pi / 5) 0 \<noteq> Rejected
   \<and> Limb_constructor (Vec 0 0) (- 56) (pi / 4) 0 (pi / 5) 0 \<noteq> Rejected
   \<and> Limb_constructor (Vec 0 0) 56 (- 1) 0 (- 1) 0
       = Constructed \<lparr>elbow = new_LimbPoint (Vec 0 56), foot = new_LimbPoint (Vec 0 112),
                      distance = 56, elbowRange = - 1, elbowOffset = 0, footRange = - 1,
                      footOffset = 0\<rparr>"
proof -
  have u: "[0..<nat 2] = [0, 1]" by (simp add: upt_rec)
  have "Blob_constructor (Vec 0 0) 2 50 1
     = Constructed \<lparr>points = [new_BlobPoint (Vec 0 (- 50)), new_BlobPoint (Vec 0 50)],
                    radius = 50, area = 2500 * pi, circumference = 100 * pi,
                    chordLength = 50 * pi\<rparr>"
    unfolding Blob_constructor_def Let_def u list.map layout_two
    by (simp add: js_div_def)
  moreover have "Limb_constructor (Vec 0 0) 56 (- 1) 0 (- 1) 0
       = Constructed \<lparr>elbow = new_LimbPoint (Vec 0 56), foot = new_LimbPoint (Vec 0 112),
                      distance = 56, elbowRange = - 1, elbowOffset = 0, footRange = - 1,
                      footOffset = 0\<rparr>"
    by (simp add: Limb_constructor_def Vector2_add_def Let_def)
  ultimately show ?thesis
    by (simp add: Blob_constructor_def Limb_constructor_def Let_def)
qed

section \<open>The chord sum in binary64 arithmetic\<close>

lemma round_even_error: "\<bar>real_of_int (round_even q) - q\<bar> \<le> 1 / 2"
  unfolding round_even_def Let_def by (auto; linarith)

lemma floor_log2:
  assumes "2 powi e \<le> \<bar>x\<bar>" "\<bar>x\<bar> < 2 powi (e + 1)"
  shows "\<lfloor>log 2 \<bar>x\<bar>\<rfloor> = e"
proof -
  have p: "0 < \<bar>x\<bar>" using assms(1) zero_less_power_int [of "2::real" e] by linarith
  have a: "(2::real) powr real_of_int e = 2 powi e"
    by (rule powr_real_of_int') simp_all
  have b: "(2::real) powr real_of_int (e + 1) = 2 powi (e + 1)"
    by (rule powr_real_of_int') simp_all
  have "real_of_int e \<le> log 2 \<bar>x\<bar>"
    using assms(1) p by (simp add: le_log_iff a)
  moreover have "log 2 \<bar>x\<bar> < real_of_int (e + 1)"
    using assms(2) p by (simp only: log_less_iff [of 2 "\<bar>x\<bar>"] b)
  ultimately show ?thesis by (simp add: floor_eq_iff)
qed

lemma binary64_eval:
  assumes "2 powi e \<le> \<bar>x\<bar>" "\<bar>x\<bar> < 2 powi (e + 1)"
  shows "binary64 x = real_of_int (round_even (x / 2 powi (e - 52))) * 2 powi (e - 52)"
proof -
  have "0 < (2::real) powi e" by simp
  with assms(1) have "0 < \<bar>x\<bar>" by linarith
  then have "x \<noteq> 0" by simp
  then show ?thesis by (simp add: binary64_def floor_log2 [OF assms] Let_def)
qed

lemma log2_bounds:
  assumes "x \<noteq> 0"
  shows "2 powi \<lfloor>log 2 \<bar>x\<bar>\<rfloor> \<le> \<bar>x\<bar>"
proof -
  have p: "0 < \<bar>x\<bar>" using assms by simp
  have "real_of_int \<lfloor>log 2 \<bar>x\<bar>\<rfloor> \<le> log 2 \<bar>x\<bar>" by simp
  then have "2 powr real_of_int \<lfloor>log 2 \<bar>x\<bar>\<rfloor> \<le> \<bar>x\<bar>"
    using p by (simp only: le_log_iff [of 2 "\<bar>x\<bar>", symmetric])
  moreover have "(2::real) powr real_of_int \<lfloor>log 2 \<bar>x\<bar>\<rfloor> = 2 powi \<lfloor>log 2 \<bar>x\<bar>\<rfloor>"
    by (rule powr_real_of_int') simp_all
  ultimately show ?thesis by simp
qed

lemma binary64_error: "\<bar>binary64 x - x\<bar> \<le> \<bar>x\<bar> / 2 ^ 53"
proof (cases "x = 0")
  case True
  then show ?thesis by (simp add: binary64_def)
next
  case False
  define e where "e = \<lfloor>log 2 \<bar>x\<bar>\<rfloor>"
  define u :: real where "u = 2 powi (e - 52)"
  have u: "0 < u" by (simp add: u_def)
  have b: "binary64 x = real_of_int (round_even (x / u)) * u"
    using False by (simp add: binary64_def e_def u_def Let_def)
  have "binary64 x - x = (real_of_int (round_even (x / u)) - x / u) * u"
    unfolding b using u by (simp add: algebra_simps)
  then have "\<bar>binary64 x - x\<bar> = \<bar>real_of_int (round_even (x / u)) - x / u\<bar> * u"
    using u by (simp add: abs_mult)
  also have "\<dots> \<le> 1 / 2 * u"
    using round_even_error [of "x / u"] u by (intro mult_right_mono) simp_all
  also have "1 / 2 * u = 2 powi e / 2 ^ 53"
  proof -
    have "(2::real) powi (e - 52) = 2 powi e / 2 powi 52" by (simp add: power_int_diff)
    then show ?thesis by (simp add: u_def)
  qed
  also have "\<dots> \<le> \<bar>x\<bar> / 2 ^ 53"
    using log2_bounds [OF False] unfolding e_def by (intro divide_right_mono) simp_all
  finally show ?thesis .
qed

lemma circumference_128: "circumference64 128 = 7074237752028440 / 2 ^ 43"
proof -
  have a: "binary64 (128 * Math_PI) = 7074237752028440 / 2 ^ 44"
    by (subst binary64_eval [where e = 8]) (simp_all add: Math_PI_def round_even_def)
  have b: "binary64 (7074237752028440 / 2 ^ 44 * 2) = 7074237752028440 / 2 ^ 43"
    by (subst binary64_eval [where e = 9]) (simp_all add: round_even_def)
  show ?thesis unfolding circumference64_def a b ..
qed

lemma chordLength_128_25: "chordLength64 128 25 = 4527512161298202 / 2 ^ 47"
  unfolding chordLength64_def circumference_128
  by (subst binary64_eval [where e = 5]) (simp_all add: round_even_def)

lemma product_128_25: "binary64 (chordLength64 128 25 * 25) = 7074237752028441 / 2 ^ 43"
  unfolding chordLength_128_25
  by (subst binary64_eval [where e = 9]) (simp_all add: round_even_def)

text \<open>
  Radius 128 and 25 points: the circumference is \<open>7074237752028440 / 2\<^sup>4\<^sup>3\<close>, the chord
  length \<open>4527512161298202 / 2\<^sup>4\<^sup>7\<close>, and their rounded product is one unit in the last
  place above the circumference.
\<close>

theorem chord_sum_counterexample:
  "binary64 (chordLength64 128 25 * real_of_int 25) = circumference64 128 + 1 / 2 ^ 43
   \<and> binary64 (chordLength64 128 25 * real_of_int 25) \<noteq> circumference64 128"
proof -
  have "binary64 (chordLength64 128 25 * real_of_int 25) = 7074237752028441 / 2 ^ 43"
    using product_128_25 by simp
  then show ?thesis unfolding circumference_128 by simp
qed

lemma chord_sum_error:
  assumes "numPoints \<noteq> 0"
  shows "\<bar>binary64 (chordLength64 r numPoints * real_of_int numPoints) - circumference64 r\<bar>
           \<le> \<bar>circumference64 r\<bar> * (1 / 2 ^ 52 + 1 / 2 ^ 106)"
proof -
  define c where "c = circumference64 r"
  define n where "n = real_of_int numPoints"
  define ch where "ch = chordLength64 r numPoints"
  define eps :: real where "eps = 1 / 2 ^ 53"
  have n: "n \<noteq> 0" "0 < \<bar>n\<bar>" using assms by (simp_all add: n_def)
  have e0: "0 \<le> eps" by (simp add: eps_def)
  have "\<bar>ch - c / n\<bar> \<le> \<bar>c / n\<bar> * eps"
    unfolding ch_def chordLength64_def c_def n_def eps_def
    using binary64_error [of "circumference64 r / real_of_int numPoints"] by simp
  then have "\<bar>ch - c / n\<bar> * \<bar>n\<bar> \<le> \<bar>c / n\<bar> * eps * \<bar>n\<bar>"
    by (intro mult_right_mono) simp_all
  moreover have "\<bar>ch - c / n\<bar> * \<bar>n\<bar> = \<bar>ch * n - c\<bar>"
    using n(1) by (simp add: abs_mult [symmetric] algebra_simps)
  moreover have "\<bar>c / n\<bar> * eps * \<bar>n\<bar> = \<bar>c\<bar> * eps"
    using n by (simp add: abs_divide)
  ultimately have d1: "\<bar>ch * n - c\<bar> \<le> \<bar>c\<bar> * eps" by simp
  then have m: "\<bar>ch * n\<bar> \<le> \<bar>c\<bar> + \<bar>c\<bar> * eps" by linarith
  have "\<bar>binary64 (ch * n) - ch * n\<bar> \<le> \<bar>ch * n\<bar> * eps"
    unfolding eps_def using binary64_error [of "ch * n"] by simp
  also have "\<dots> \<le> (\<bar>c\<bar> + \<bar>c\<bar> * eps) * eps"
    using m e0 by (rule mult_right_mono)
  finally have d2: "\<bar>binary64 (ch * n) - ch * n\<bar> \<le> (\<bar>c\<bar> + \<bar>c\<bar> * eps) * eps" .
  have "\<bar>binary64 (ch * n) - c\<bar> \<le> \<bar>binary64 (ch * n) - ch * n\<bar> + \<bar>ch * n - c\<bar>" by linarith
  also have "\<dots> \<le> (\<bar>c\<bar> + \<bar>c\<bar> * eps) * eps + \<bar>c\<bar> * eps" using d1 d2 by linarith
  also have "\<dots> = \<bar>c\<bar> * (1 / 2 ^ 52 + 1 / 2 ^ 106)"
    by (simp add: eps_def algebra_simps)
  finally show ?thesis unfolding c_def ch_def n_def .
qed

lemma chord_sum_exact:
  assumes "numPoints \<noteq> 0"
  shows "case Blob_constructor origin numPoints r puffiness of
           Rejected \<Rightarrow> False
         | Constructed b \<Rightarrow> chordLength b * real_of_int numPoints = circumference b"
  using assms by (simp add: Blob_constructor_def js_div_def Let_def)

text \<open>
  Claim C9, as amended. For a number of points other than 0, the chord length times the
  number of points equals the circumference in exact arithmetic, and in binary64
  arithmetic the rounded product differs from the circumference by at most
  \<open>(2\<^sup>-\<^sup>5\<^sup>2 + 2\<^sup>-\<^sup>1\<^sup>0\<^sup>6)\<close> times the circumference.
\<close>

theorem chord_sum:
  assumes "numPoints \<noteq> 0"
  shows "(case Blob_constructor origin numPoints r puffiness of
            Rejected \<Rightarrow> False
          | Constructed b \<Rightarrow> chordLength b * real_of_int numPoints = circumference b)
       \<and> \<bar>binary64 (chordLength64 r numPoints * real_of_int numPoints) - circumference64 r\<bar>
           \<le> \<bar>circumference64 r\<bar> * (1 / 2 ^ 52 + 1 / 2 ^ 106)"
  using chord_sum_exact [OF assms] chord_sum_error [OF assms] by blast

text \<open>The bound for radius 128 and 25 points.\<close>

theorem chord_sum_witness:
  "(25::int) \<noteq> 0
   \<and> \<bar>binary64 (chordLength64 128 25 * real_of_int 25) - circumference64 128\<bar>
       \<le> \<bar>circumference64 128\<bar> * (1 / 2 ^ 52 + 1 / 2 ^ 106)"
proof -
  have h: "(25::int) \<noteq> 0" by simp
  show ?thesis using h chord_sum [OF h, of "Vec 0 0" 128 1] by blast
qed

end
